theory Spec2Isabelle
  imports Main
begin

section \<open>Untyped values, strings and outcomes\<close>

text \<open>
  Go's \<open>interface{}\<close> values (JSON payloads, CEL results, template data) are an untyped
  value: a map value is a finite map from string keys. Strings are byte strings; the
  functions of package \<open>strings\<close> below are Go's on ASCII text, where \<open>ToLower\<close>,
  \<open>TrimSpace\<close> and \<open>EqualFold\<close> work byte by byte.
\<close>

datatype val =
    VNull
  | VBool bool
  | VInt int
  | VStr string
  | VList "val list"
  | VMap "string \<Rightarrow> val option"

text \<open>
  A Go function that returns \<open>(value, error)\<close> either returns a value (\<open>Ok\<close>), returns
  an error with its message (\<open>Err\<close>), or panics. No function of the repository recovers
  from a panic, so a panic ends the goroutine and the process with it.
\<close>

datatype 'a result = Ok 'a | Err string | Panic

definition toLowerChar :: "char \<Rightarrow> char" where
  "toLowerChar c =
     (let n = (of_char c :: nat) in if 65 \<le> n \<and> n \<le> 90 then char_of (n + 32) else c)"

definition ToLower :: "string \<Rightarrow> string" where
  "ToLower s = map toLowerChar s"

definition isSpace :: "char \<Rightarrow> bool" where
  "isSpace c = (let n = (of_char c :: nat) in (9 \<le> n \<and> n \<le> 13) \<or> n = 32)"

definition TrimSpace :: "string \<Rightarrow> string" where
  "TrimSpace s = rev (dropWhile isSpace (rev (dropWhile isSpace s)))"

definition EqualFold :: "string \<Rightarrow> string \<Rightarrow> bool" where
  "EqualFold s t = (ToLower s = ToLower t)"

fun Contains :: "string \<Rightarrow> string \<Rightarrow> bool" where
  "Contains [] substr = (substr = [])"
| "Contains (c # s) substr = (take (length substr) (c # s) = substr \<or> Contains s substr)"

text \<open>The decimal digits that \<open>%d\<close> prints for a loop index.\<close>

fun itoa :: "nat \<Rightarrow> string" where
  "itoa n = (if n < 10 then [char_of (48 + n)] else itoa (n div 10) @ [char_of (48 + n mod 10)])"

declare itoa.simps [simp del]

section \<open>Data model of the router\<close>

text \<open>
  \<open>domain.GraphState\<close> and \<open>domain.NodeState\<close> are declared in the library
  \<open>dago-libs\<close>; the records below hold the fields that the router reads. Status enums
  are strings (\<open>string(state.Status)\<close>); output, error and timestamps are untyped values.
  \<open>NodeStates\<close> is a Go map from node id to \<open>*NodeState\<close>: here the list of its
  entries, where the entry \<open>None\<close> is a \<open>nil\<close> pointer (the JSON \<open>null\<close>).
\<close>

record NodeState =
  NodeStatus :: string
  Output :: val
  Error :: val
  StartedAt :: val
  CompletedAt :: val

record GraphState =
  GraphID :: string
  Status :: string
  Inputs :: "string \<rightharpoonup> val"
  NodeStates :: "(string \<times> NodeState option) list"

record Rule =
  Condition :: string
  Target :: string

text \<open>
  The \<open>routes\<close> of an \<open>LLMConfig\<close> are a Go map from string to string: here the
  list of its entries, read with \<open>map_of\<close>. The order of the list carries no meaning.
\<close>

record LLMConfig =
  PromptTemplate :: string
  Routes :: "(string \<times> string) list"

text \<open>
  \<open>NodeConfig\<close>: the pointer fields \<open>LLMConfig\<close> and \<open>LLMFallback\<close> are options
  (\<open>None\<close> is \<open>nil\<close>). The free-form \<open>Config\<close> field is read by no routing function
  and is left out.
\<close>

record NodeConfig =
  Mode :: string
  Rules :: "Rule list"
  FastRules :: "Rule list"
  LLMConfig :: "LLMConfig option"
  LLMFallback :: "LLMConfig option"
  Fallback :: string

record RoutingResult =
  TargetNode :: string
  Reasoning :: string
  ResultMode :: string
  PathTaken :: string

definition ModeDeterministic :: string where
  "ModeDeterministic = ''deterministic''"

definition ModeLLM :: string where
  "ModeLLM = ''llm''"

definition ModeHybrid :: string where
  "ModeHybrid = ''hybrid''"

section \<open>The expression evaluator (eval/cel/evaluator.go)\<close>

text \<open>
  The evaluator wraps the library cel-go. Of the library it uses \<open>env.Compile\<close> (with the
  error of its issues), \<open>env.Program\<close>, \<open>program.Eval\<close> and \<open>out.ConvertToNative\<close>. The
  first two are fields of the record; a compiled program is the function that
  \<open>program.Eval\<close> computes. The cache of the evaluator holds for an expression the program
  that was compiled for the same text before, so a lookup gives what compiling gives and
  the cache is not a part of the state here.
\<close>

datatype Ast = Ast string

type_synonym Program = "(string \<rightharpoonup> val) \<Rightarrow> string + val"

record Evaluator =
  envCompile :: "string \<Rightarrow> string + Ast"
  envProgram :: "Ast \<Rightarrow> string + Program"

text \<open>
  \<open>Evaluate\<close> converts the value of the expression with \<open>out.ConvertToNative(nil)\<close>. In
  cel-go v0.18.2, the version that \<open>go.mod\<close> requires, the conversion of every value
  begins with a call on its argument, the type descriptor (\<open>typeDesc.Kind()\<close> for
  booleans, numbers, strings and null, \<open>AssignableTo(typeDesc)\<close> for lists and maps).
  With the \<open>nil\<close> descriptor that call panics.
\<close>

definition ConvertToNativeNil :: "val \<Rightarrow> val result" where
  "ConvertToNativeNil out = Panic"

definition getProgram :: "Evaluator \<Rightarrow> string \<Rightarrow> Program result" where
  "getProgram e expression =
     (case envCompile e expression of
        Inl issues \<Rightarrow> Err (''parse error: '' @ issues)
      | Inr ast \<Rightarrow>
          (case envProgram e ast of
             Inl err \<Rightarrow> Err (''program generation error: '' @ err)
           | Inr program \<Rightarrow> Ok program))"

definition Evaluate :: "Evaluator \<Rightarrow> string \<Rightarrow> (string \<rightharpoonup> val) \<Rightarrow> val result" where
  "Evaluate e expression vars =
     (case getProgram e expression of
        Panic \<Rightarrow> Panic
      | Err err \<Rightarrow> Err (''failed to compile expression: '' @ err)
      | Ok program \<Rightarrow>
          (case program vars of
             Inl err \<Rightarrow> Err (''evaluation failed: '' @ err)
           | Inr out \<Rightarrow>
               (case ConvertToNativeNil out of
                  Panic \<Rightarrow> Panic
                | Err err \<Rightarrow> Err (''failed to convert result: '' @ err)
                | Ok result \<Rightarrow> Ok result)))"

section \<open>The template engine (eval/template/engine.go)\<close>

text \<open>
  The engine wraps the library raymond: \<open>raymond.Parse\<close> is a field of the record, and a
  parsed template is the function that its \<open>Exec\<close> computes. Both return their failures as
  errors. The cache is left out as for the evaluator.
\<close>

type_synonym Template = "(string \<rightharpoonup> val) \<Rightarrow> string + string"

record Engine =
  raymondParse :: "string \<Rightarrow> string + Template"

definition getTemplate :: "Engine \<Rightarrow> string \<Rightarrow> string + Template" where
  "getTemplate e templateStr =
     (case raymondParse e templateStr of
        Inl err \<Rightarrow> Inl (''parse error: '' @ err)
      | Inr tmpl \<Rightarrow> Inr tmpl)"

definition Render :: "Engine \<Rightarrow> string \<Rightarrow> (string \<rightharpoonup> val) \<Rightarrow> string + string" where
  "Render e templateStr data =
     (case getTemplate e templateStr of
        Inl err \<Rightarrow> Inl (''failed to compile template: '' @ err)
      | Inr tmpl \<Rightarrow>
          (case tmpl data of
             Inl err \<Rightarrow> Inl (''template execution failed: '' @ err)
           | Inr result \<Rightarrow> Inr result))"

section \<open>The router (router.go)\<close>

text \<open>
  The language-model client is a port of the library \<open>dago-libs\<close>: a function from the
  request to an error or a reply, \<open>None\<close> when the router was built with a \<open>nil\<close> client.
  A reply is either a \<open>*domain.LLMResponse\<close> with its content or a value of another
  type.
\<close>

record Message =
  Role :: string
  Content :: string

record LLMRequest =
  Model :: string
  Messages :: "Message list"
  MaxTokens :: nat

datatype LLMReply = LLMResponse string | OtherReply

record Router =
  celEvaluator :: Evaluator
  templateEngine :: Engine
  llmClient :: "(LLMRequest \<Rightarrow> string + LLMReply) option"

definition detectMode :: "NodeConfig \<Rightarrow> string" where
  "detectMode config =
     (if length (FastRules config) > 0 \<and> LLMFallback config \<noteq> None then ModeHybrid
      else if LLMConfig config \<noteq> None then ModeLLM
      else if length (Rules config) > 0 then ModeDeterministic
      else ModeDeterministic)"

text \<open>The loop over \<open>config.Rules\<close>: the first rule with an empty field gives the error.\<close>

fun validateRules :: "nat \<Rightarrow> Rule list \<Rightarrow> string option" where
  "validateRules i [] = None"
| "validateRules i (rule # rest) =
     (if Condition rule = [] then Some (''rule '' @ itoa i @ '': condition is required'')
      else if Target rule = [] then Some (''rule '' @ itoa i @ '': target is required'')
      else validateRules (Suc i) rest)"

text \<open>\<open>validateConfig\<close> returns \<open>None\<close> for \<open>nil\<close> (the config is accepted).\<close>

definition validateConfig :: "NodeConfig option \<Rightarrow> string option" where
  "validateConfig c =
     (case c of
        None \<Rightarrow> Some ''config is nil''
      | Some config \<Rightarrow>
          if Fallback config = [] then Some ''fallback route is required''
          else if Mode config = ModeDeterministic then
            (if length (Rules config) = 0 then Some ''deterministic mode requires rules''
             else validateRules 0 (Rules config))
          else if Mode config = ModeLLM then
            (case LLMConfig config of
               None \<Rightarrow> Some ''llm mode requires llm_config''
             | Some l \<Rightarrow>
                 if PromptTemplate l = [] then Some ''llm_config.prompt_template is required''
                 else if length (Routes l) = 0 then Some ''llm_config.routes is required''
                 else None)
          else if Mode config = ModeHybrid then
            (if length (FastRules config) = 0 then Some ''hybrid mode requires fast_rules''
             else case LLMFallback config of
               None \<Rightarrow> Some ''hybrid mode requires llm_fallback''
             | Some l \<Rightarrow>
                 if PromptTemplate l = [] then Some ''llm_fallback.prompt_template is required''
                 else if length (Routes l) = 0 then Some ''llm_fallback.routes is required''
                 else None)
          else None)"

section \<open>State projections (deterministic.go, llm.go)\<close>

text \<open>
  \<open>convertNodeStates\<close> ranges over the map of node states and stores one projected
  entry per node in \<open>result\<close>. It reads \<open>nodeState.Status\<close> through the pointer: a
  \<open>nil\<close> entry panics. The entries are visited in the order of the list; another order
  gives the same outcome.
\<close>

fun convertNodeStatesLoop ::
  "(string \<times> NodeState option) list \<Rightarrow> (string \<rightharpoonup> val) \<Rightarrow> (string \<rightharpoonup> val) result" where
  "convertNodeStatesLoop [] result = Ok result"
| "convertNodeStatesLoop ((nodeID, None) # rest) result = Panic"
| "convertNodeStatesLoop ((nodeID, Some nodeState) # rest) result =
     convertNodeStatesLoop rest
       (result(nodeID \<mapsto> VMap [''status'' \<mapsto> VStr (NodeStatus nodeState),
                                ''output'' \<mapsto> Output nodeState,
                                ''error'' \<mapsto> Error nodeState,
                                ''started_at'' \<mapsto> StartedAt nodeState,
                                ''completed_at'' \<mapsto> CompletedAt nodeState]))"

definition convertNodeStates ::
  "(string \<times> NodeState option) list \<Rightarrow> (string \<rightharpoonup> val) result" where
  "convertNodeStates nodeStates = convertNodeStatesLoop nodeStates Map.empty"

definition prepareStateForCEL :: "GraphState \<Rightarrow> (string \<rightharpoonup> val) result" where
  "prepareStateForCEL state =
     (case convertNodeStates (NodeStates state) of
        Panic \<Rightarrow> Panic
      | Err err \<Rightarrow> Err err
      | Ok nodeStates \<Rightarrow>
          Ok [''state'' \<mapsto> VMap [''graph_id'' \<mapsto> VStr (GraphID state),
                                 ''status'' \<mapsto> VStr (Status state),
                                 ''inputs'' \<mapsto> VMap (Inputs state),
                                 ''node_states'' \<mapsto> VMap nodeStates]])"

text \<open>
  \<open>renderPrompt\<close> first builds the template data: the map literal, then one assignment
  \<open>data[key] = value\<close> for every entry of the inputs, which is the literal overridden by
  the inputs whatever the order of the assignments.
\<close>

definition promptData :: "GraphState \<Rightarrow> (string \<rightharpoonup> val)" where
  "promptData state =
     [''state'' \<mapsto> VMap [''graph_id'' \<mapsto> VStr (GraphID state),
                            ''status'' \<mapsto> VStr (Status state),
                            ''inputs'' \<mapsto> VMap (Inputs state)]] ++ Inputs state"

definition renderPrompt :: "Router \<Rightarrow> GraphState \<Rightarrow> string \<Rightarrow> string + string" where
  "renderPrompt r state template = Render (templateEngine r) template (promptData state)"


section \<open>The strategies\<close>

subsection \<open>Rule evaluation (deterministic.go, hybrid.go)\<close>

text \<open>
  Both \<open>routeDeterministic\<close> and \<open>routeHybrid\<close> run the same loop over their rules:
  an evaluation error and a non-boolean result continue with the next rule, the first
  rule whose result is the boolean \<open>true\<close> ends the loop with its index. A panic of the
  evaluator ends the loop and the caller.
\<close>

fun evalRules ::
  "Evaluator \<Rightarrow> (string \<rightharpoonup> val) \<Rightarrow> nat \<Rightarrow> Rule list \<Rightarrow> (nat \<times> Rule) option result" where
  "evalRules e celState i [] = Ok None"
| "evalRules e celState i (rule # rest) =
     (case Evaluate e (Condition rule) celState of
        Panic \<Rightarrow> Panic
      | Err err \<Rightarrow> evalRules e celState (Suc i) rest
      | Ok result \<Rightarrow>
          (case result of
             VBool matched \<Rightarrow>
               if matched then Ok (Some (i, rule)) else evalRules e celState (Suc i) rest
           | _ \<Rightarrow> evalRules e celState (Suc i) rest))"

definition routeDeterministic :: "Router \<Rightarrow> GraphState \<Rightarrow> NodeConfig \<Rightarrow> RoutingResult result" where
  "routeDeterministic r state config =
     (case validateConfig (Some config) of
        Some err \<Rightarrow> Err (''invalid config: '' @ err)
      | None \<Rightarrow>
     (case prepareStateForCEL state of
        Panic \<Rightarrow> Panic
      | Err err \<Rightarrow> Err err
      | Ok celState \<Rightarrow>
     (case evalRules (celEvaluator r) celState 0 (Rules config) of
        Panic \<Rightarrow> Panic
      | Err err \<Rightarrow> Err err
      | Ok (Some (i, rule)) \<Rightarrow>
          Ok \<lparr>TargetNode = Target rule,
               Reasoning = ''matched rule '' @ itoa i @ '': '' @ Condition rule,
               ResultMode = ModeDeterministic,
               PathTaken = ''fast''\<rparr>
      | Ok None \<Rightarrow>
          Ok \<lparr>TargetNode = Fallback config,
               Reasoning = ''no rules matched'',
               ResultMode = ModeDeterministic,
               PathTaken = ''fallback''\<rparr>)))"

subsection \<open>Matching the model's answer (llm.go)\<close>

text \<open>
  A \<open>for key, target := range routes\<close> loop visits the entries of a Go map in an order
  that the runtime chooses anew for every loop. The order is an argument here: the list
  of keys as the loop visits them.
\<close>

definition rangeOrder :: "string list \<Rightarrow> (string \<times> string) list \<Rightarrow> bool" where
  "rangeOrder keys routes = (distinct keys \<and> set keys = set (map fst routes))"

fun rangeFind ::
  "(string \<Rightarrow> bool) \<Rightarrow> (string \<times> string) list \<Rightarrow> string list \<Rightarrow> string option" where
  "rangeFind p routes [] = None"
| "rangeFind p routes (key # keys) =
     (case map_of routes key of
        None \<Rightarrow> rangeFind p routes keys
      | Some target \<Rightarrow> if p key then Some target else rangeFind p routes keys)"

definition matchLLMResponse ::
  "string list \<times> string list \<Rightarrow> string \<Rightarrow> (string \<times> string) list \<Rightarrow> string \<times> bool" where
  "matchLLMResponse ord response routes =
     (let normalized = TrimSpace (ToLower response) in
      case map_of routes normalized of
        Some target \<Rightarrow> (target, True)
      | None \<Rightarrow>
          (case rangeFind (\<lambda>key. EqualFold key normalized) routes (fst ord) of
             Some target \<Rightarrow> (target, True)
           | None \<Rightarrow>
               (case rangeFind (\<lambda>key. Contains normalized (ToLower key)) routes (snd ord) of
                  Some target \<Rightarrow> (target, True)
                | None \<Rightarrow> ([], False))))"

text \<open>\<open>callLLM\<close> is reached only after the check that the client is not \<open>nil\<close>.\<close>

definition completionRequest :: "string \<Rightarrow> LLMRequest" where
  "completionRequest prompt =
     \<lparr>Model = ''claude-sonnet-4-20250514'',
      Messages = [\<lparr>Role = ''user'', Content = prompt\<rparr>],
      MaxTokens = 1024\<rparr>"

definition callLLM :: "(LLMRequest \<Rightarrow> string + LLMReply) \<Rightarrow> string \<Rightarrow> string + string" where
  "callLLM client prompt =
     (let req = completionRequest prompt in
      case client req of
        Inl err \<Rightarrow> Inl (''llm completion failed: '' @ err)
      | Inr (LLMResponse content) \<Rightarrow> Inr content
      | Inr OtherReply \<Rightarrow> Inl ''unexpected response type from LLM'')"

text \<open>
  \<open>routeLLM\<close> and \<open>routeHybrid\<close> dereference \<open>config.LLMConfig\<close> and
  \<open>config.LLMFallback\<close>: a \<open>nil\<close> pointer panics. \<open>Route\<close> calls them in their own
  mode only, where validation has refused a \<open>nil\<close> pointer.
\<close>

definition routeLLM ::
  "Router \<Rightarrow> string list \<times> string list \<Rightarrow> GraphState \<Rightarrow> NodeConfig \<Rightarrow> RoutingResult result" where
  "routeLLM r ord state config =
     (case validateConfig (Some config) of
        Some err \<Rightarrow> Err (''invalid config: '' @ err)
      | None \<Rightarrow>
     (case llmClient r of
        None \<Rightarrow> Err ''llm client not configured''
      | Some client \<Rightarrow>
     (case LLMConfig config of
        None \<Rightarrow> Panic
      | Some llm \<Rightarrow>
     (case renderPrompt r state (PromptTemplate llm) of
        Inl err \<Rightarrow> Err (''failed to render prompt: '' @ err)
      | Inr prompt \<Rightarrow>
     (case callLLM client prompt of
        Inl err \<Rightarrow>
          Ok \<lparr>TargetNode = Fallback config,
               Reasoning = ''llm call failed: '' @ err,
               ResultMode = ModeLLM,
               PathTaken = ''fallback''\<rparr>
      | Inr response \<Rightarrow>
          (case matchLLMResponse ord response (Routes llm) of
             (target, matched) \<Rightarrow>
               if \<not> matched then
                 Ok \<lparr>TargetNode = Fallback config,
                      Reasoning = ''llm response '' @ [CHR 0x27] @ response @ [CHR 0x27]
                                  @ '' did not match any route'',
                      ResultMode = ModeLLM,
                      PathTaken = ''fallback''\<rparr>
               else
                 Ok \<lparr>TargetNode = target,
                      Reasoning = ''llm classified as: '' @ response,
                      ResultMode = ModeLLM,
                      PathTaken = ''slow''\<rparr>))))))"

definition routeHybrid ::
  "Router \<Rightarrow> string list \<times> string list \<Rightarrow> GraphState \<Rightarrow> NodeConfig \<Rightarrow> RoutingResult result" where
  "routeHybrid r ord state config =
     (case validateConfig (Some config) of
        Some err \<Rightarrow> Err (''invalid config: '' @ err)
      | None \<Rightarrow>
     (case prepareStateForCEL state of
        Panic \<Rightarrow> Panic
      | Err err \<Rightarrow> Err err
      | Ok celState \<Rightarrow>
     (case evalRules (celEvaluator r) celState 0 (FastRules config) of
        Panic \<Rightarrow> Panic
      | Err err \<Rightarrow> Err err
      | Ok (Some (i, rule)) \<Rightarrow>
          Ok \<lparr>TargetNode = Target rule,
               Reasoning = ''matched fast rule '' @ itoa i @ '': '' @ Condition rule,
               ResultMode = ModeHybrid,
               PathTaken = ''fast''\<rparr>
      | Ok None \<Rightarrow>
     (case llmClient r of
        None \<Rightarrow>
          Ok \<lparr>TargetNode = Fallback config,
               Reasoning = ''fast rules did not match and llm client not configured'',
               ResultMode = ModeHybrid,
               PathTaken = ''fallback''\<rparr>
      | Some client \<Rightarrow>
     (case LLMFallback config of
        None \<Rightarrow> Panic
      | Some llm \<Rightarrow>
     (case renderPrompt r state (PromptTemplate llm) of
        Inl err \<Rightarrow>
          Ok \<lparr>TargetNode = Fallback config,
               Reasoning = ''failed to render prompt: '' @ err,
               ResultMode = ModeHybrid,
               PathTaken = ''fallback''\<rparr>
      | Inr prompt \<Rightarrow>
     (case callLLM client prompt of
        Inl err \<Rightarrow>
          Ok \<lparr>TargetNode = Fallback config,
               Reasoning = ''llm call failed: '' @ err,
               ResultMode = ModeHybrid,
               PathTaken = ''fallback''\<rparr>
      | Inr response \<Rightarrow>
          (case matchLLMResponse ord response (Routes llm) of
             (target, matched) \<Rightarrow>
               if \<not> matched then
                 Ok \<lparr>TargetNode = Fallback config,
                      Reasoning = ''llm response '' @ [CHR 0x27] @ response @ [CHR 0x27]
                                  @ '' did not match any route'',
                      ResultMode = ModeHybrid,
                      PathTaken = ''fallback''\<rparr>
               else
                 Ok \<lparr>TargetNode = target,
                      Reasoning = ''llm classified as: '' @ response
                                  @ '' (after fast rules failed)'',
                      ResultMode = ModeHybrid,
                      PathTaken = ''slow''\<rparr>))))))))"

subsection \<open>The entry point (router.go)\<close>

text \<open>
  \<open>Route\<close> reads \<open>config.Mode\<close> before anything else, so its config is never \<open>nil\<close>;
  an empty mode is replaced by the detected one before the strategy validates the config.
\<close>

definition resolveMode :: "NodeConfig \<Rightarrow> NodeConfig" where
  "resolveMode config = (if Mode config = [] then config\<lparr>Mode := detectMode config\<rparr> else config)"

definition Route ::
  "Router \<Rightarrow> string list \<times> string list \<Rightarrow> GraphState \<Rightarrow> NodeConfig \<Rightarrow> RoutingResult result" where
  "Route r ord state config0 =
     (let config = resolveMode config0 in
      if Mode config = ModeDeterministic then routeDeterministic r state config
      else if Mode config = ModeLLM then routeLLM r ord state config
      else if Mode config = ModeHybrid then routeHybrid r ord state config
      else Err (''unknown routing mode: '' @ Mode config))"

section \<open>The worker (worker.go)\<close>

text \<open>
  The worker talks to the broker, the state store, the JSON codec and the clock. Each is
  a field of the record: a function giving the outcome of the call. What the worker does
  to the broker is the list of its calls, in order: \<open>XAdd stream data\<close> appends an
  entry, \<open>XAck stream group id\<close> acknowledges one. Log calls are left out.

  Handling an entry panics only inside \<open>Route\<close>, before the first broker call for the
  entry: the outcome \<open>Panic\<close> of \<open>processRoutingRequest\<close> and of \<open>handleMessage\<close>
  stands for the process ending with no broker call made for the entry.
\<close>

record XMessage =
  ID :: string
  Values :: "string \<rightharpoonup> val"

record WorkRequest =
  ExecutionID :: string
  NodeID :: string
  Config :: "string \<rightharpoonup> val"

datatype Call = XAdd string string | XAck string string string

record Worker =
  streamKey :: string
  consumerGroup :: string
  resultStream :: string
  router :: Router
  rangeOrders :: "string list \<times> string list"
  stateStoreLoad :: "string \<Rightarrow> string + (string \<rightharpoonup> val)"
  jsonMarshal :: "val \<Rightarrow> string + string"
  unmarshalWorkRequest :: "string \<Rightarrow> string + WorkRequest"
  unmarshalGraphState :: "string \<Rightarrow> string + GraphState"
  unmarshalNodeConfig :: "string \<Rightarrow> string + NodeConfig"
  redisXAdd :: "string \<Rightarrow> string \<Rightarrow> string option"
  redisXAck :: "string \<Rightarrow> string \<Rightarrow> string \<Rightarrow> string option"
  timeNow :: val

definition parseWorkRequest :: "Worker \<Rightarrow> (string \<rightharpoonup> val) \<Rightarrow> string + WorkRequest" where
  "parseWorkRequest w values =
     (case values ''data'' of
        Some (VStr dataStr) \<Rightarrow>
          (case unmarshalWorkRequest w dataStr of
             Inl err \<Rightarrow> Inl (''failed to unmarshal work request: '' @ err)
           | Inr request \<Rightarrow> Inr request)
      | _ \<Rightarrow> Inl (''missing or invalid '' @ [CHR 0x27] @ ''data'' @ [CHR 0x27] @ '' field''))"

definition convertToGraphState ::
  "Worker \<Rightarrow> string \<Rightarrow> (string \<rightharpoonup> val) \<Rightarrow> string + GraphState" where
  "convertToGraphState w graphID stateData =
     (case jsonMarshal w (VMap stateData) of
        Inl err \<Rightarrow> Inl (''failed to marshal state: '' @ err)
      | Inr data \<Rightarrow>
          (case unmarshalGraphState w data of
             Inl err \<Rightarrow> Inl (''failed to unmarshal to GraphState: '' @ err)
           | Inr graphState \<Rightarrow>
               Inr (if GraphID graphState = [] then graphState\<lparr>GraphID := graphID\<rparr>
                    else graphState)))"

definition parseNodeConfig :: "Worker \<Rightarrow> (string \<rightharpoonup> val) \<Rightarrow> string + NodeConfig" where
  "parseNodeConfig w config =
     (case jsonMarshal w (VMap config) of
        Inl err \<Rightarrow> Inl (''failed to marshal config: '' @ err)
      | Inr data \<Rightarrow>
          (case unmarshalNodeConfig w data of
             Inl err \<Rightarrow> Inl (''failed to unmarshal config: '' @ err)
           | Inr nodeConfig \<Rightarrow> Inr nodeConfig))"

definition decisionRecord :: "Worker \<Rightarrow> WorkRequest \<Rightarrow> RoutingResult \<Rightarrow> val" where
  "decisionRecord w request result =
     VMap [''execution_id'' \<mapsto> VStr (ExecutionID request),
           ''node_id'' \<mapsto> VStr (NodeID request),
           ''target_node'' \<mapsto> VStr (TargetNode result),
           ''reasoning'' \<mapsto> VStr (Reasoning result),
           ''mode'' \<mapsto> VStr (ResultMode result),
           ''path_taken'' \<mapsto> VStr (PathTaken result),
           ''timestamp'' \<mapsto> timeNow w]"

definition publishDecision ::
  "Worker \<Rightarrow> WorkRequest \<Rightarrow> RoutingResult \<Rightarrow> string option \<times> Call list" where
  "publishDecision w request result =
     (let decision = decisionRecord w request result in
      case jsonMarshal w decision of
        Inl err \<Rightarrow> (Some (''failed to marshal decision: '' @ err), [])
      | Inr data \<Rightarrow>
          (case redisXAdd w (resultStream w) data of
             Some err \<Rightarrow>
               (Some (''failed to publish to stream: '' @ err), [XAdd (resultStream w) data])
           | None \<Rightarrow> (None, [XAdd (resultStream w) data])))"

definition errorRecord :: "Worker \<Rightarrow> WorkRequest \<Rightarrow> string \<Rightarrow> val" where
  "errorRecord w request err =
     VMap [''execution_id'' \<mapsto> VStr (ExecutionID request),
           ''node_id'' \<mapsto> VStr (NodeID request),
           ''error'' \<mapsto> VStr err,
           ''timestamp'' \<mapsto> timeNow w]"

definition publishError :: "Worker \<Rightarrow> WorkRequest \<Rightarrow> string \<Rightarrow> Call list" where
  "publishError w request err =
     (let errorEvent = errorRecord w request err in
      case jsonMarshal w errorEvent of
        Inl marshalErr \<Rightarrow> []
      | Inr data \<Rightarrow> [XAdd (resultStream w @ ''.errors'') data])"

definition acknowledgeMessage :: "Worker \<Rightarrow> string \<Rightarrow> Call list" where
  "acknowledgeMessage w messageID = [XAck (streamKey w) (consumerGroup w) messageID]"

definition processRoutingRequest ::
  "Worker \<Rightarrow> WorkRequest \<Rightarrow> (string option \<times> Call list) result" where
  "processRoutingRequest w request =
     (case stateStoreLoad w (ExecutionID request) of
        Inl err \<Rightarrow> Ok (Some (''failed to load state: '' @ err), [])
      | Inr stateData \<Rightarrow>
     (case convertToGraphState w (ExecutionID request) stateData of
        Inl err \<Rightarrow> Ok (Some (''failed to convert state: '' @ err), [])
      | Inr graphState \<Rightarrow>
     (case parseNodeConfig w (Config request) of
        Inl err \<Rightarrow> Ok (Some (''failed to parse node config: '' @ err), [])
      | Inr nodeConfig \<Rightarrow>
     (case Route (router w) (rangeOrders w) graphState nodeConfig of
        Panic \<Rightarrow> Panic
      | Err err \<Rightarrow> Ok (Some (''routing failed: '' @ err), [])
      | Ok result \<Rightarrow>
     (case publishDecision w request result of
        (Some err, calls) \<Rightarrow> Ok (Some (''failed to publish decision: '' @ err), calls)
      | (None, calls) \<Rightarrow> Ok (None, calls))))))"

definition handleMessage :: "Worker \<Rightarrow> XMessage \<Rightarrow> Call list result" where
  "handleMessage w message =
     (let messageID = ID message in
      case parseWorkRequest w (Values message) of
        Inl err \<Rightarrow> Ok (acknowledgeMessage w messageID)
      | Inr workRequest \<Rightarrow>
          (case processRoutingRequest w workRequest of
             Panic \<Rightarrow> Panic
           | Err err \<Rightarrow> Err err
           | Ok (Some err, calls) \<Rightarrow>
               Ok (calls @ publishError w workRequest err @ acknowledgeMessage w messageID)
           | Ok (None, calls) \<Rightarrow> Ok (calls @ acknowledgeMessage w messageID)))"


fun isXAck :: "Call \<Rightarrow> bool" where
  "isXAck (XAdd stream data) = False"
| "isXAck (XAck stream grp messageID) = True"


section \<open>Concrete inputs\<close>

text \<open>
  A graph state with one input and one finished node, and stand-ins for the libraries at
  the expressions and templates used below. In the stand-in for cel-go the name
  \<open>nosuch\<close> is undeclared and the empty expression does not parse, so neither compiles;
  \<open>has(state.inputs.k)\<close> evaluates to whether the inputs have the key \<open>k\<close>, and
  \<open>state.inputs.missing\<close> fails at evaluation for a state without that input. The
  stand-in for raymond rejects an unclosed block and renders a template without
  placeholders as itself.
\<close>

definition exState :: GraphState where
  "exState =
     \<lparr>GraphID = ''g1'', Status = ''running'',
      Inputs = [''urgent'' \<mapsto> VBool True],
      NodeStates = [(''n1'', Some \<lparr>NodeStatus = ''completed'', Output = VStr ''done'',
                                   Error = VNull, StartedAt = VStr ''2024-01-15T10:00:00Z'',
                                   CompletedAt = VStr ''2024-01-15T10:00:05Z''\<rparr>)]\<rparr>"

definition exStateNilNode :: GraphState where
  "exStateNilNode = exState\<lparr>NodeStates := [(''n1'', None)]\<rparr>"

definition exInput :: "(string \<rightharpoonup> val) \<Rightarrow> string \<Rightarrow> val option" where
  "exInput vars key =
     (case vars ''state'' of
        Some (VMap st) \<Rightarrow>
          (case st ''inputs'' of Some (VMap inputs) \<Rightarrow> inputs key | _ \<Rightarrow> None)
      | _ \<Rightarrow> None)"

definition exEval :: "string \<Rightarrow> Program" where
  "exEval expression vars =
     (if expression = ''has(state.inputs.urgent)'' then
        (case exInput vars ''urgent'' of Some v \<Rightarrow> Inr (VBool True) | None \<Rightarrow> Inr (VBool False))
      else if expression = ''has(state.inputs.missing)'' then
        (case exInput vars ''missing'' of Some v \<Rightarrow> Inr (VBool True) | None \<Rightarrow> Inr (VBool False))
      else
        (case exInput vars ''missing'' of Some v \<Rightarrow> Inr v | None \<Rightarrow> Inl ''no such key: missing''))"

definition exCel :: Evaluator where
  "exCel =
     \<lparr>envCompile = (\<lambda>expression.
         if expression = ''has(state.inputs.urgent)'' \<or> expression = ''has(state.inputs.missing)''
              \<or> expression = ''state.inputs.missing''
         then Inr (Ast expression)
         else if expression = [] then Inl ''Syntax error: mismatched input''
         else Inl ''undeclared reference to nosuch''),
      envProgram = (\<lambda>ast. case ast of Ast expression \<Rightarrow> Inr (exEval expression))\<rparr>"

definition exRaymond :: Engine where
  "exRaymond =
     \<lparr>raymondParse = (\<lambda>templateStr.
         if templateStr = ''{{#if x}}'' then Inl ''Lexer error: unclosed block''
         else Inr (\<lambda>data. Inr templateStr))\<rparr>"

definition exRouter :: "(LLMRequest \<Rightarrow> string + LLMReply) option \<Rightarrow> Router" where
  "exRouter client = \<lparr>celEvaluator = exCel, templateEngine = exRaymond, llmClient = client\<rparr>"

definition exReply :: "string \<Rightarrow> LLMRequest \<Rightarrow> string + LLMReply" where
  "exReply content req = Inr (LLMResponse content)"

definition exFailing :: "LLMRequest \<Rightarrow> string + LLMReply" where
  "exFailing req = Inl ''timeout''"

definition exRoutes :: "(string \<times> string) list" where
  "exRoutes = [(''yes'', ''Y''), (''no'', ''N'')]"

definition exOrder :: "string list \<times> string list" where
  "exOrder = ([''yes'', ''no''], [''no'', ''yes''])"

definition exDeterministic :: "Rule list \<Rightarrow> NodeConfig" where
  "exDeterministic rules =
     \<lparr>Mode = ''deterministic'', Rules = rules, FastRules = [],
      LLMConfig = None, LLMFallback = None, Fallback = ''D''\<rparr>"

definition exLLM :: "string \<Rightarrow> (string \<times> string) list \<Rightarrow> NodeConfig" where
  "exLLM template routes =
     \<lparr>Mode = ''llm'', Rules = [], FastRules = [],
      LLMConfig = Some \<lparr>PromptTemplate = template, Routes = routes\<rparr>,
      LLMFallback = None, Fallback = ''D''\<rparr>"

definition exHybrid :: "Rule list \<Rightarrow> string \<Rightarrow> NodeConfig" where
  "exHybrid rules template =
     \<lparr>Mode = ''hybrid'', Rules = [], FastRules = rules, LLMConfig = None,
      LLMFallback = Some \<lparr>PromptTemplate = template, Routes = exRoutes\<rparr>,
      Fallback = ''D''\<rparr>"

definition exRoutesAB :: "(string \<times> string) list" where
  "exRoutesAB = [(''a'', ''X''), (''b'', ''Y'')]"

subsection \<open>A worker\<close>

text \<open>
  The payload of a work item for \<open>exec-1\<close> is the JSON text of a deterministic config
  with one rule. The stand-in codec decodes the payloads with the conditions
  \<open>nosuch.x > 1\<close> and \<open>has(state.inputs.urgent)\<close>, decodes \<open>{}\<close> to the request with
  empty fields, and rejects any other text; it encodes the records that the worker
  builds. The store holds the state of \<open>exec-1\<close>, and the broker accepts every call.
\<close>

definition exQuote :: "string \<Rightarrow> string" where
  "exQuote s = [CHR 0x22] @ s @ [CHR 0x22]"

definition exMember :: "(string \<rightharpoonup> val) \<Rightarrow> string \<Rightarrow> string" where
  "exMember m key =
     exQuote key @ '':'' @ (case m key of Some (VStr v) \<Rightarrow> exQuote v | _ \<Rightarrow> ''null'')"

fun exMembers :: "(string \<rightharpoonup> val) \<Rightarrow> string list \<Rightarrow> string" where
  "exMembers m [] = []"
| "exMembers m [key] = exMember m key"
| "exMembers m (key # keys) = exMember m key @ '','' @ exMembers m keys"

definition exConfigJSON :: "string \<Rightarrow> string" where
  "exConfigJSON cond =
     ''{'' @ exQuote ''fallback'' @ '':'' @ exQuote ''D'' @ '','' @ exQuote ''mode'' @ '':''
     @ exQuote ''deterministic'' @ '','' @ exQuote ''rules'' @ '':[{'' @ exQuote ''condition''
     @ '':'' @ exQuote cond @ '','' @ exQuote ''target'' @ '':'' @ exQuote ''A'' @ ''}]}''"

definition exPayload :: "string \<Rightarrow> string" where
  "exPayload cond =
     ''{'' @ exQuote ''execution_id'' @ '':'' @ exQuote ''exec-1'' @ '','' @ exQuote ''node_id''
     @ '':'' @ exQuote ''node-1'' @ '','' @ exQuote ''config'' @ '':'' @ exConfigJSON cond @ ''}''"

definition exStoredJSON :: string where
  "exStoredJSON =
     ''{'' @ exQuote ''graph_id'' @ '':'' @ exQuote ''g1'' @ '','' @ exQuote ''inputs'' @ '':{''
     @ exQuote ''urgent'' @ '':true},'' @ exQuote ''status'' @ '':'' @ exQuote ''running'' @ ''}''"

definition exStored :: GraphState where
  "exStored = exState\<lparr>NodeStates := []\<rparr>"

definition exConfigMap :: "string \<Rightarrow> (string \<rightharpoonup> val)" where
  "exConfigMap cond =
     [''mode'' \<mapsto> VStr ''deterministic'',
      ''rules'' \<mapsto> VList [VMap [''condition'' \<mapsto> VStr cond, ''target'' \<mapsto> VStr ''A'']],
      ''fallback'' \<mapsto> VStr ''D'']"

definition exMarshal :: "val \<Rightarrow> string + string" where
  "exMarshal v =
     (case v of
        VMap m \<Rightarrow>
          (case m ''rules'' of
             Some (VList [VMap rule]) \<Rightarrow>
               (case rule ''condition'' of
                  Some (VStr cond) \<Rightarrow> Inr (exConfigJSON cond)
                | _ \<Rightarrow> Inr ''{}'')
           | _ \<Rightarrow>
               (case m ''graph_id'' of
                  Some g \<Rightarrow> Inr exStoredJSON
                | None \<Rightarrow>
                    (case m ''target_node'' of
                       Some t \<Rightarrow>
                         Inr (''{'' @ exMembers m [''execution_id'', ''mode'', ''node_id'',
                                ''path_taken'', ''reasoning'', ''target_node'', ''timestamp''] @ ''}'')
                     | None \<Rightarrow>
                         Inr (''{'' @ exMembers m [''error'', ''execution_id'', ''node_id'',
                                ''timestamp''] @ ''}''))))
      | _ \<Rightarrow> Inr ''null'')"

definition exUnmarshalWorkRequest :: "string \<Rightarrow> string + WorkRequest" where
  "exUnmarshalWorkRequest dataStr =
     (if dataStr = exPayload ''nosuch.x > 1'' then
        Inr \<lparr>ExecutionID = ''exec-1'', NodeID = ''node-1'', Config = exConfigMap ''nosuch.x > 1''\<rparr>
      else if dataStr = exPayload ''has(state.inputs.urgent)'' then
        Inr \<lparr>ExecutionID = ''exec-1'', NodeID = ''node-1'',
             Config = exConfigMap ''has(state.inputs.urgent)''\<rparr>
      else if dataStr = ''{}'' then
        Inr \<lparr>ExecutionID = [], NodeID = [], Config = Map.empty\<rparr>
      else Inl ''invalid character'')"

definition exUnmarshalNodeConfig :: "string \<Rightarrow> string + NodeConfig" where
  "exUnmarshalNodeConfig data =
     (if data = exConfigJSON ''nosuch.x > 1'' then
        Inr (exDeterministic [\<lparr>Condition = ''nosuch.x > 1'', Target = ''A''\<rparr>])
      else if data = exConfigJSON ''has(state.inputs.urgent)'' then
        Inr (exDeterministic [\<lparr>Condition = ''has(state.inputs.urgent)'', Target = ''A''\<rparr>])
      else Inl ''unexpected end of JSON input'')"

definition exWorker :: Worker where
  "exWorker =
     \<lparr>streamKey = ''router.work'', consumerGroup = ''router-workers'',
      resultStream = ''router.decided'',
      router = exRouter None,
      rangeOrders = exOrder,
      stateStoreLoad = (\<lambda>executionID.
         if executionID = ''exec-1''
         then Inr [''graph_id'' \<mapsto> VStr ''g1'', ''status'' \<mapsto> VStr ''running'',
                   ''inputs'' \<mapsto> VMap [''urgent'' \<mapsto> VBool True]]
         else Inl ''state not found''),
      jsonMarshal = exMarshal,
      unmarshalWorkRequest = exUnmarshalWorkRequest,
      unmarshalGraphState = (\<lambda>data. if data = exStoredJSON then Inr exStored
                                      else Inl ''unexpected end of JSON input''),
      unmarshalNodeConfig = exUnmarshalNodeConfig,
      redisXAdd = (\<lambda>stream data. None),
      redisXAck = (\<lambda>stream grp messageID. None),
      timeNow = VStr ''2024-01-15T10:30:00Z''\<rparr>"

definition exMessage :: "val \<Rightarrow> XMessage" where
  "exMessage payload = \<lparr>ID = ''1-0'', Values = [''data'' \<mapsto> payload]\<rparr>"

section \<open>Facts about the evaluator, the rule loop and the entry point\<close>

lemma Evaluate_outcome:
  "Evaluate e expression vars = Panic \<or> (\<exists>err. Evaluate e expression vars = Err err)"
  by (simp add: Evaluate_def ConvertToNativeNil_def split: result.splits sum.splits)

lemma Evaluate_not_Ok: "Evaluate e expression vars \<noteq> Ok v"
  using Evaluate_outcome [of e expression vars] by auto

lemma Evaluate_Panic:
  "(Evaluate e expression vars = Panic) =
     (\<exists>program out. getProgram e expression = Ok program \<and> program vars = Inr out)"
  by (auto simp: Evaluate_def ConvertToNativeNil_def getProgram_def split: result.splits sum.splits)

lemma evalRules_not_Some: "evalRules e s i rules \<noteq> Ok (Some hit)"
proof (induction rules arbitrary: i)
  case Nil
  then show ?case by simp
next
  case (Cons rule rules)
  from Evaluate_outcome [of e "Condition rule" s] show ?case
  proof
    assume "Evaluate e (Condition rule) s = Panic"
    then show ?thesis by simp
  next
    assume "\<exists>err. Evaluate e (Condition rule) s = Err err"
    then show ?thesis using Cons.IH by auto
  qed
qed

lemma evalRules_None:
  "(evalRules e s i rules = Ok None) =
     (\<forall>rule\<in>set rules. \<exists>err. Evaluate e (Condition rule) s = Err err)"
proof (induction rules arbitrary: i)
  case Nil
  then show ?case by simp
next
  case (Cons rule rules)
  from Evaluate_outcome [of e "Condition rule" s] show ?case
  proof
    assume "Evaluate e (Condition rule) s = Panic"
    then show ?thesis by simp
  next
    assume "\<exists>err. Evaluate e (Condition rule) s = Err err"
    then show ?thesis using Cons.IH by auto
  qed
qed

lemma evalRules_not_Err: "evalRules e s i rules \<noteq> Err err"
proof (induction rules arbitrary: i)
  case Nil
  then show ?case by simp
next
  case (Cons rule rules)
  from Evaluate_outcome [of e "Condition rule" s] show ?case
  proof
    assume "Evaluate e (Condition rule) s = Panic"
    then show ?thesis by simp
  next
    assume "\<exists>err. Evaluate e (Condition rule) s = Err err"
    then show ?thesis using Cons.IH by auto
  qed
qed

lemma evalRules_outcome: "evalRules e s i rules = Ok None \<or> evalRules e s i rules = Panic"
proof (cases "evalRules e s i rules")
  case (Ok hit)
  then show ?thesis using evalRules_not_Some [of e s i rules] by (cases hit) auto
next
  case (Err err)
  then show ?thesis using evalRules_not_Err [of e s i rules err] by simp
next
  case Panic
  then show ?thesis by simp
qed

lemma resolveMode_fields [simp]:
  "Rules (resolveMode config) = Rules config"
  "FastRules (resolveMode config) = FastRules config"
  "LLMConfig (resolveMode config) = LLMConfig config"
  "LLMFallback (resolveMode config) = LLMFallback config"
  "Fallback (resolveMode config) = Fallback config"
  by (simp_all add: resolveMode_def)

lemma modes_distinct [simp]:
  "ModeDeterministic \<noteq> ModeLLM" "ModeDeterministic \<noteq> ModeHybrid" "ModeLLM \<noteq> ModeHybrid"
  "ModeLLM \<noteq> ModeDeterministic" "ModeHybrid \<noteq> ModeDeterministic" "ModeHybrid \<noteq> ModeLLM"
  by (simp_all add: ModeDeterministic_def ModeLLM_def ModeHybrid_def)

lemma Route_deterministic:
  "Mode (resolveMode config) = ModeDeterministic \<Longrightarrow>
   Route r ord state config = routeDeterministic r state (resolveMode config)"
  by (simp add: Route_def)

lemma Route_llm:
  "Mode (resolveMode config) = ModeLLM \<Longrightarrow>
   Route r ord state config = routeLLM r ord state (resolveMode config)"
  by (simp add: Route_def)

lemma Route_hybrid:
  "Mode (resolveMode config) = ModeHybrid \<Longrightarrow>
   Route r ord state config = routeHybrid r ord state (resolveMode config)"
  by (simp add: Route_def)

lemma exDeterministic_resolved: "resolveMode (exDeterministic rules) = exDeterministic rules"
  by (simp add: resolveMode_def exDeterministic_def)

lemma exLLM_resolved: "resolveMode (exLLM template routes) = exLLM template routes"
  by (simp add: resolveMode_def exLLM_def)


lemma exLLM_valid:
  "template \<noteq> [] \<Longrightarrow> routes \<noteq> [] \<Longrightarrow> validateConfig (Some (exLLM template routes)) = None"
  by (simp add: validateConfig_def exLLM_def ModeLLM_def ModeDeterministic_def)


section \<open>Order-first match\<close>

text \<open>
  The fast path is never taken: the evaluator returns no value, so no rule matches, and
  a decision of the engine is never on the fast path.
\<close>

lemma Route_never_fast:
  assumes "Route r ord state config = Ok d"
  shows "PathTaken d \<noteq> ''fast''"
proof -
  let ?c = "resolveMode config"
  consider (det) "Mode ?c = ModeDeterministic" | (llm) "Mode ?c = ModeLLM" | (hyb) "Mode ?c = ModeHybrid"
    using assms by (auto simp: Route_def Let_def split: if_splits)
  then show ?thesis
  proof cases
    case det
    with assms have "routeDeterministic r state ?c = Ok d" by (simp add: Route_deterministic)
    then show ?thesis
      using evalRules_not_Some [of "celEvaluator r" _ 0 "Rules config"]
      by (auto simp: routeDeterministic_def split: option.splits result.splits)
  next
    case llm
    with assms have "routeLLM r ord state ?c = Ok d" by (simp add: Route_llm)
    then show ?thesis
      by (auto simp: routeLLM_def split: option.splits sum.splits prod.splits if_splits)
  next
    case hyb
    with assms have "routeHybrid r ord state ?c = Ok d" by (simp add: Route_hybrid)
    then show ?thesis
      using evalRules_not_Some [of "celEvaluator r" _ 0 "FastRules config"]
      by (auto simp: routeHybrid_def split: option.splits result.splits sum.splits prod.splits if_splits)
  qed
qed

text \<open>
  Claim C1 at the rules \<open>nosuch.x > 1\<close> (target A) and \<open>has(state.inputs.urgent)\<close>
  (target B), fallback D, for a state whose inputs have \<open>urgent\<close>: the config is valid,
  the first rule does not compile and is skipped, the second evaluates to \<open>true\<close>, and the
  engine panics in the evaluator where the claim gives the decision with target B; in
  deterministic and in hybrid mode alike.
\<close>

theorem first_match_panics:
  "validateConfig (Some (exDeterministic [\<lparr>Condition = ''nosuch.x > 1'', Target = ''A''\<rparr>,
        \<lparr>Condition = ''has(state.inputs.urgent)'', Target = ''B''\<rparr>])) = None
   \<and> Route (exRouter None) exOrder exState
        (exDeterministic [\<lparr>Condition = ''nosuch.x > 1'', Target = ''A''\<rparr>,
           \<lparr>Condition = ''has(state.inputs.urgent)'', Target = ''B''\<rparr>]) = Panic
   \<and> validateConfig (Some (exHybrid [\<lparr>Condition = ''nosuch.x > 1'', Target = ''A''\<rparr>,
        \<lparr>Condition = ''has(state.inputs.urgent)'', Target = ''B''\<rparr>] ''Classify'')) = None
   \<and> Route (exRouter None) exOrder exState
        (exHybrid [\<lparr>Condition = ''nosuch.x > 1'', Target = ''A''\<rparr>,
           \<lparr>Condition = ''has(state.inputs.urgent)'', Target = ''B''\<rparr>] ''Classify'') = Panic
   \<and> (case prepareStateForCEL exState of
          Ok celState \<Rightarrow> exEval ''has(state.inputs.urgent)'' celState = Inr (VBool True)
        | Err err \<Rightarrow> False
        | Panic \<Rightarrow> False)"
proof -
  have runs:
    "validateConfig (Some (exDeterministic [\<lparr>Condition = ''nosuch.x > 1'', Target = ''A''\<rparr>,
        \<lparr>Condition = ''has(state.inputs.urgent)'', Target = ''B''\<rparr>])) = None
     \<and> Route (exRouter None) exOrder exState
        (exDeterministic [\<lparr>Condition = ''nosuch.x > 1'', Target = ''A''\<rparr>,
           \<lparr>Condition = ''has(state.inputs.urgent)'', Target = ''B''\<rparr>]) = Panic
     \<and> validateConfig (Some (exHybrid [\<lparr>Condition = ''nosuch.x > 1'', Target = ''A''\<rparr>,
        \<lparr>Condition = ''has(state.inputs.urgent)'', Target = ''B''\<rparr>] ''Classify'')) = None
     \<and> Route (exRouter None) exOrder exState
        (exHybrid [\<lparr>Condition = ''nosuch.x > 1'', Target = ''A''\<rparr>,
           \<lparr>Condition = ''has(state.inputs.urgent)'', Target = ''B''\<rparr>] ''Classify'') = Panic"
    by code_simp
  have true: "case prepareStateForCEL exState of
          Ok celState \<Rightarrow> exEval ''has(state.inputs.urgent)'' celState = Inr (VBool True)
        | Err err \<Rightarrow> False
        | Panic \<Rightarrow> False"
    by (simp add: prepareStateForCEL_def convertNodeStates_def exState_def exEval_def exInput_def)
  from runs true show ?thesis by simp
qed

section \<open>The broker calls of one stream entry\<close>

lemma publishDecision_calls:
  "publishDecision w request result = (e, calls) \<Longrightarrow>
     filter isXAck calls = [] \<and>
     (calls = [] \<or> (\<exists>data. calls = [XAdd (resultStream w) data]))"
  by (auto simp: publishDecision_def Let_def split: sum.splits option.splits)

lemma processRoutingRequest_calls:
  "processRoutingRequest w request = Ok (e, calls) \<Longrightarrow>
     filter isXAck calls = [] \<and>
     (calls = [] \<or> (\<exists>data. calls = [XAdd (resultStream w) data]))"
  unfolding processRoutingRequest_def
  by (auto split: sum.splits option.splits prod.splits result.splits dest: publishDecision_calls)

lemma processRoutingRequest_not_Err: "processRoutingRequest w request \<noteq> Err err"
  unfolding processRoutingRequest_def
  by (auto split: sum.splits option.splits prod.splits result.splits)

lemma publishError_calls:
  "filter isXAck (publishError w request err) = []"
  by (simp add: publishError_def Let_def split: sum.splits)

text \<open>
  Whenever handling an entry returns, it has acknowledged the entry exactly once, by its
  id, on the input stream and group.
\<close>

lemma handleMessage_acks_once_if_returns:
  assumes "handleMessage w message = Ok calls"
  shows "filter isXAck calls = [XAck (streamKey w) (consumerGroup w) (ID message)]"
proof (cases "parseWorkRequest w (Values message)")
  case (Inl err)
  with assms show ?thesis by (auto simp: handleMessage_def acknowledgeMessage_def)
next
  case (Inr workRequest)
  with assms obtain e cs where p: "processRoutingRequest w workRequest = Ok (e, cs)"
    by (cases "processRoutingRequest w workRequest") (auto simp: handleMessage_def)
  from processRoutingRequest_calls [OF p] have "filter isXAck cs = []" by simp
  with Inr p assms show ?thesis
    by (cases e) (auto simp: handleMessage_def acknowledgeMessage_def publishError_calls)
qed

lemma exPayload_distinct:
  "exPayload ''has(state.inputs.urgent)'' \<noteq> exPayload ''nosuch.x > 1''"
  by code_simp

lemma exWorker_parse_urgent:
  "parseWorkRequest exWorker (Values (exMessage (VStr (exPayload ''has(state.inputs.urgent)'')))) =
     Inr \<lparr>ExecutionID = ''exec-1'', NodeID = ''node-1'',
          Config = exConfigMap ''has(state.inputs.urgent)''\<rparr>"
  by (simp add: parseWorkRequest_def exWorker_def exMessage_def exUnmarshalWorkRequest_def
      exPayload_distinct)


text \<open>
  Claim C5 at a work item for \<open>exec-1\<close> whose rule \<open>has(state.inputs.urgent)\<close>
  evaluates: the payload parses, and handling the entry panics in the evaluator before
  any broker call, so the entry is not acknowledged, where the claim gives exactly one
  acknowledgement.
\<close>

theorem evaluating_entry_not_acknowledged:
  "parseWorkRequest exWorker (Values (exMessage (VStr (exPayload ''has(state.inputs.urgent)'')))) =
     Inr \<lparr>ExecutionID = ''exec-1'', NodeID = ''node-1'',
          Config = exConfigMap ''has(state.inputs.urgent)''\<rparr>
   \<and> handleMessage exWorker (exMessage (VStr (exPayload ''has(state.inputs.urgent)''))) = Panic"
proof -
  have "handleMessage exWorker (exMessage (VStr (exPayload ''has(state.inputs.urgent)''))) = Panic"
    by code_simp
  with exWorker_parse_urgent show ?thesis by simp
qed









section \<open>Failures of the language-model path\<close>

text \<open>
  Claim C7. In llm mode with a valid config, once the prompt is rendered, an error of
  the client call is not returned to the caller: the engine returns the fallback
  decision, whose reasoning begins \<open>llm call failed:\<close> and ends with the cause.
\<close>

theorem llm_call_failure_contained:
  assumes valid: "validateConfig (Some (resolveMode config)) = None"
    and mode: "Mode (resolveMode config) = ModeLLM"
    and client: "llmClient r = Some client"
    and llm: "LLMConfig config = Some llm"
    and rendered: "renderPrompt r state (PromptTemplate llm) = Inr prompt"
    and failed: "client (completionRequest prompt) = Inl cause"
  shows "Route r ord state config =
           Ok \<lparr>TargetNode = Fallback config,
               Reasoning = ''llm call failed: '' @ ''llm completion failed: '' @ cause,
               ResultMode = ModeLLM,
               PathTaken = ''fallback''\<rparr>"
proof -
  have "callLLM client prompt = Inl (''llm completion failed: '' @ cause)"
    using failed by (simp add: callLLM_def)
  then show ?thesis
    using valid mode client llm rendered by (simp add: Route_llm routeLLM_def)
qed

lemma exRender_plain:
  "renderPrompt (exRouter client) state ''Classify'' = Inr ''Classify''"
  by (simp add: renderPrompt_def Render_def getTemplate_def exRouter_def exRaymond_def)

theorem llm_call_failure_contained_witness:
  "Route (exRouter (Some exFailing)) exOrder exState (exLLM ''Classify'' exRoutes) =
     Ok \<lparr>TargetNode = ''D'',
         Reasoning = ''llm call failed: llm completion failed: timeout'',
         ResultMode = ''llm'',
         PathTaken = ''fallback''\<rparr>"
proof -
  have valid: "validateConfig (Some (resolveMode (exLLM ''Classify'' exRoutes))) = None"
    unfolding exLLM_resolved by (simp add: exLLM_valid exRoutes_def)
  have mode: "Mode (resolveMode (exLLM ''Classify'' exRoutes)) = ModeLLM"
    unfolding exLLM_resolved by (simp add: exLLM_def ModeLLM_def)
  have client: "llmClient (exRouter (Some exFailing)) = Some exFailing"
    by (simp add: exRouter_def)
  have llm: "LLMConfig (exLLM ''Classify'' exRoutes) = Some \<lparr>PromptTemplate = ''Classify'', Routes = exRoutes\<rparr>"
    by (simp add: exLLM_def)
  have rendered: "renderPrompt (exRouter (Some exFailing)) exState
                    (PromptTemplate \<lparr>PromptTemplate = ''Classify'', Routes = exRoutes\<rparr>) = Inr ''Classify''"
    by (simp add: exRender_plain)
  have failed: "exFailing (completionRequest ''Classify'') = Inl ''timeout''"
    by (simp add: exFailing_def)
  from llm_call_failure_contained [OF valid mode client llm rendered failed, of exOrder]
  show ?thesis by (simp add: exLLM_def ModeLLM_def)
qed

text \<open>
  What the engine does on a failure to render the prompt, with a client configured and
  a valid config: a hard error in llm mode, and in hybrid mode the fallback decision,
  when the evaluation of every fast rule failed.
\<close>

lemma render_failure_when_rules_fail:
  assumes valid: "validateConfig (Some (resolveMode config)) = None"
    and client: "llmClient r = Some client"
    and failed: "renderPrompt r state (PromptTemplate llm) = Inl err"
  shows "(Mode (resolveMode config) = ModeLLM \<and> LLMConfig config = Some llm \<longrightarrow>
            Route r ord state config = Err (''failed to render prompt: '' @ err))
       \<and> (Mode (resolveMode config) = ModeHybrid \<and> LLMFallback config = Some llm
            \<and> prepareStateForCEL state = Ok celState
            \<and> (\<forall>rule\<in>set (FastRules config).
                  \<exists>e. Evaluate (celEvaluator r) (Condition rule) celState = Err e) \<longrightarrow>
            Route r ord state config =
              Ok \<lparr>TargetNode = Fallback config,
                  Reasoning = ''failed to render prompt: '' @ err,
                  ResultMode = ModeHybrid,
                  PathTaken = ''fallback''\<rparr>)"
proof (intro conjI impI)
  assume "Mode (resolveMode config) = ModeLLM \<and> LLMConfig config = Some llm"
  then show "Route r ord state config = Err (''failed to render prompt: '' @ err)"
    using valid client failed by (simp add: Route_llm routeLLM_def)
next
  assume h: "Mode (resolveMode config) = ModeHybrid \<and> LLMFallback config = Some llm
            \<and> prepareStateForCEL state = Ok celState
            \<and> (\<forall>rule\<in>set (FastRules config).
                  \<exists>e. Evaluate (celEvaluator r) (Condition rule) celState = Err e)"
  then have "evalRules (celEvaluator r) celState 0 (FastRules config) = Ok None"
    by (simp add: evalRules_None)
  with h show "Route r ord state config =
              Ok \<lparr>TargetNode = Fallback config,
                  Reasoning = ''failed to render prompt: '' @ err,
                  ResultMode = ModeHybrid,
                  PathTaken = ''fallback''\<rparr>"
    using valid client failed by (simp add: Route_hybrid routeHybrid_def)
qed

text \<open>
  Claim C8 at a hybrid config whose fast rule \<open>has(state.inputs.missing)\<close> evaluates to
  \<open>false\<close> and whose prompt template \<open>{{#if x}}\<close> does not parse, with a client
  configured: the config is valid, no fast rule matches, and the engine panics in the
  evaluator, before the template is rendered, where the claim gives the fallback
  decision that names the render error.
\<close>

theorem render_failure_hybrid_panics:
  "validateConfig
     (Some (exHybrid [\<lparr>Condition = ''has(state.inputs.missing)'', Target = ''A''\<rparr>] ''{{#if x}}'')) = None
   \<and> Route (exRouter (Some (exReply ''yes''))) exOrder exState
        (exHybrid [\<lparr>Condition = ''has(state.inputs.missing)'', Target = ''A''\<rparr>] ''{{#if x}}'') = Panic
   \<and> (case prepareStateForCEL exState of
          Ok celState \<Rightarrow> exEval ''has(state.inputs.missing)'' celState = Inr (VBool False)
        | Err err \<Rightarrow> False
        | Panic \<Rightarrow> False)"
proof -
  have runs:
    "validateConfig
       (Some (exHybrid [\<lparr>Condition = ''has(state.inputs.missing)'', Target = ''A''\<rparr>] ''{{#if x}}'')) = None
     \<and> Route (exRouter (Some (exReply ''yes''))) exOrder exState
        (exHybrid [\<lparr>Condition = ''has(state.inputs.missing)'', Target = ''A''\<rparr>] ''{{#if x}}'') = Panic"
    by code_simp
  have false: "case prepareStateForCEL exState of
          Ok celState \<Rightarrow> exEval ''has(state.inputs.missing)'' celState = Inr (VBool False)
        | Err err \<Rightarrow> False
        | Panic \<Rightarrow> False"
    by (simp add: prepareStateForCEL_def convertNodeStates_def exState_def exEval_def exInput_def)
  from runs false show ?thesis by simp
qed

text \<open>
  What the engine does without a client (\<open>nil\<close>) for a valid config: the hard error
  \<open>llm client not configured\<close> in llm mode, and in hybrid mode the fallback decision,
  when the evaluation of every fast rule failed.
\<close>

lemma missing_client_when_rules_fail:
  assumes valid: "validateConfig (Some (resolveMode config)) = None"
    and client: "llmClient r = None"
  shows "(Mode (resolveMode config) = ModeLLM \<longrightarrow>
            Route r ord state config = Err ''llm client not configured'')
       \<and> (Mode (resolveMode config) = ModeHybrid
            \<and> prepareStateForCEL state = Ok celState
            \<and> (\<forall>rule\<in>set (FastRules config).
                  \<exists>e. Evaluate (celEvaluator r) (Condition rule) celState = Err e) \<longrightarrow>
            Route r ord state config =
              Ok \<lparr>TargetNode = Fallback config,
                  Reasoning = ''fast rules did not match and llm client not configured'',
                  ResultMode = ModeHybrid,
                  PathTaken = ''fallback''\<rparr>)"
proof (intro conjI impI)
  assume "Mode (resolveMode config) = ModeLLM"
  then show "Route r ord state config = Err ''llm client not configured''"
    using valid client by (simp add: Route_llm routeLLM_def)
next
  assume h: "Mode (resolveMode config) = ModeHybrid
            \<and> prepareStateForCEL state = Ok celState
            \<and> (\<forall>rule\<in>set (FastRules config).
                  \<exists>e. Evaluate (celEvaluator r) (Condition rule) celState = Err e)"
  then have "evalRules (celEvaluator r) celState 0 (FastRules config) = Ok None"
    by (simp add: evalRules_None)
  with h show "Route r ord state config =
              Ok \<lparr>TargetNode = Fallback config,
                  Reasoning = ''fast rules did not match and llm client not configured'',
                  ResultMode = ModeHybrid,
                  PathTaken = ''fallback''\<rparr>"
    using valid client by (simp add: Route_hybrid routeHybrid_def)
qed

text \<open>
  Claim C10 at a hybrid config whose fast rule \<open>has(state.inputs.missing)\<close> evaluates to
  \<open>false\<close>, for a router without a client: the config is valid, no fast rule matches,
  and the engine panics in the evaluator where the claim gives the fallback decision.
  The llm-mode config gets the hard error of the claim.
\<close>

theorem missing_client_hybrid_panics:
  "validateConfig
     (Some (exHybrid [\<lparr>Condition = ''has(state.inputs.missing)'', Target = ''A''\<rparr>] ''Classify'')) = None
   \<and> Route (exRouter None) exOrder exState
        (exHybrid [\<lparr>Condition = ''has(state.inputs.missing)'', Target = ''A''\<rparr>] ''Classify'') = Panic
   \<and> Route (exRouter None) exOrder exState (exLLM ''Classify'' exRoutes) =
        Err ''llm client not configured''
   \<and> (case prepareStateForCEL exState of
          Ok celState \<Rightarrow> exEval ''has(state.inputs.missing)'' celState = Inr (VBool False)
        | Err err \<Rightarrow> False
        | Panic \<Rightarrow> False)"
proof -
  have runs:
    "validateConfig
       (Some (exHybrid [\<lparr>Condition = ''has(state.inputs.missing)'', Target = ''A''\<rparr>] ''Classify'')) = None
     \<and> Route (exRouter None) exOrder exState
        (exHybrid [\<lparr>Condition = ''has(state.inputs.missing)'', Target = ''A''\<rparr>] ''Classify'') = Panic
     \<and> Route (exRouter None) exOrder exState (exLLM ''Classify'' exRoutes) =
        Err ''llm client not configured''"
    by code_simp
  have false: "case prepareStateForCEL exState of
          Ok celState \<Rightarrow> exEval ''has(state.inputs.missing)'' celState = Inr (VBool False)
        | Err err \<Rightarrow> False
        | Panic \<Rightarrow> False"
    by (simp add: prepareStateForCEL_def convertNodeStates_def exState_def exEval_def exInput_def)
  from runs false show ?thesis by simp
qed

section \<open>The state projections\<close>

lemma convertNodeStatesLoop_ok:
  assumes "\<forall>entry\<in>set entries. snd entry \<noteq> None"
  shows "\<exists>nodes. convertNodeStatesLoop entries acc = Ok nodes
           \<and> (\<forall>nodeID. nodeID \<notin> set (map fst entries) \<longrightarrow> nodes nodeID = acc nodeID)
           \<and> (distinct (map fst entries) \<longrightarrow>
                (\<forall>nodeID nodeState. (nodeID, Some nodeState) \<in> set entries \<longrightarrow>
                   nodes nodeID =
                     Some (VMap [''status'' \<mapsto> VStr (NodeStatus nodeState),
                                 ''output'' \<mapsto> Output nodeState,
                                 ''error'' \<mapsto> Error nodeState,
                                 ''started_at'' \<mapsto> StartedAt nodeState,
                                 ''completed_at'' \<mapsto> CompletedAt nodeState])))"
  using assms
proof (induction entries arbitrary: acc)
  case Nil
  then show ?case by simp
next
  case (Cons entry entries)
  obtain id0 p0 where entry: "entry = (id0, p0)" by (cases entry)
  with Cons.prems obtain n0 where p0: "p0 = Some n0" by auto
  let ?proj = "VMap [''status'' \<mapsto> VStr (NodeStatus n0), ''output'' \<mapsto> Output n0,
                     ''error'' \<mapsto> Error n0, ''started_at'' \<mapsto> StartedAt n0,
                     ''completed_at'' \<mapsto> CompletedAt n0]"
  let ?acc = "acc(id0 \<mapsto> ?proj)"
  from Cons.prems have rest: "\<forall>entry\<in>set entries. snd entry \<noteq> None" by simp
  from Cons.IH [OF rest, of ?acc] obtain nodes where
    ok: "convertNodeStatesLoop entries ?acc = Ok nodes"
    and out: "\<forall>nodeID. nodeID \<notin> set (map fst entries) \<longrightarrow> nodes nodeID = ?acc nodeID"
    and inn: "distinct (map fst entries) \<longrightarrow>
                (\<forall>nodeID nodeState. (nodeID, Some nodeState) \<in> set entries \<longrightarrow>
                   nodes nodeID =
                     Some (VMap [''status'' \<mapsto> VStr (NodeStatus nodeState),
                                 ''output'' \<mapsto> Output nodeState,
                                 ''error'' \<mapsto> Error nodeState,
                                 ''started_at'' \<mapsto> StartedAt nodeState,
                                 ''completed_at'' \<mapsto> CompletedAt nodeState]))"
    by blast
  have 1: "convertNodeStatesLoop (entry # entries) acc = Ok nodes"
    using ok entry p0 by simp
  have 2: "\<forall>nodeID. nodeID \<notin> set (map fst (entry # entries)) \<longrightarrow> nodes nodeID = acc nodeID"
    using out entry by auto
  have 3: "distinct (map fst (entry # entries)) \<longrightarrow>
                (\<forall>nodeID nodeState. (nodeID, Some nodeState) \<in> set (entry # entries) \<longrightarrow>
                   nodes nodeID =
                     Some (VMap [''status'' \<mapsto> VStr (NodeStatus nodeState),
                                 ''output'' \<mapsto> Output nodeState,
                                 ''error'' \<mapsto> Error nodeState,
                                 ''started_at'' \<mapsto> StartedAt nodeState,
                                 ''completed_at'' \<mapsto> CompletedAt nodeState]))"
  proof (intro impI allI)
    fix nodeID nodeState
    assume d: "distinct (map fst (entry # entries))"
      and m: "(nodeID, Some nodeState) \<in> set (entry # entries)"
    from d entry have new: "id0 \<notin> set (map fst entries)" and d': "distinct (map fst entries)"
      by simp_all
    from m consider (head) "(nodeID, Some nodeState) = entry" | (tail) "(nodeID, Some nodeState) \<in> set entries"
      by auto
    then show "nodes nodeID =
                     Some (VMap [''status'' \<mapsto> VStr (NodeStatus nodeState),
                                 ''output'' \<mapsto> Output nodeState,
                                 ''error'' \<mapsto> Error nodeState,
                                 ''started_at'' \<mapsto> StartedAt nodeState,
                                 ''completed_at'' \<mapsto> CompletedAt nodeState])"
    proof cases
      case head
      with entry p0 have "nodeID = id0" "nodeState = n0" by simp_all
      with new out show ?thesis by simp
    next
      case tail
      with inn d' show ?thesis by blast
    qed
  qed
  from 1 2 3 show ?case by blast
qed

lemma convertNodeStatesLoop_nil:
  "(nodeID, None) \<in> set entries \<Longrightarrow> convertNodeStatesLoop entries acc = Panic"
proof (induction entries arbitrary: acc)
  case Nil
  then show ?case by simp
next
  case (Cons entry entries)
  obtain id0 p0 where entry: "entry = (id0, p0)" by (cases entry)
  show ?case
  proof (cases p0)
    case None
    with entry show ?thesis by simp
  next
    case (Some n0)
    with Cons entry show ?thesis by auto
  qed
qed

text \<open>A state with a \<open>nil\<close> node state: the engine panics while it projects the state.\<close>

lemma nil_node_state_panics:
  "Route (exRouter None) exOrder exStateNilNode
     (exDeterministic [\<lparr>Condition = ''nosuch.x > 1'', Target = ''A''\<rparr>]) = Panic"
  by code_simp

text \<open>
  Claim C9, amended. For a graph state whose node states are distinct entries, none of
  them \<open>nil\<close>, the expression evaluator is given the binding \<open>state\<close> with
  \<open>{graph_id, status, inputs, node_states}\<close>, where \<open>node_states\<close> projects each node
  state to \<open>{status, output, error, started_at, completed_at}\<close> and has no other
  entry. The data given to the template engine binds \<open>state\<close> to
  \<open>{graph_id, status, inputs}\<close> only, without \<open>node_states\<close>, when no input is named
  \<open>state\<close>; every entry of the inputs is also a top-level field, so
  \<open>state.inputs.x\<close> and \<open>x\<close> both resolve.
\<close>

theorem state_projections:
  assumes noclash: "Inputs state ''state'' = None"
    and nonnil: "\<forall>entry\<in>set (NodeStates state). snd entry \<noteq> None"
    and keys: "distinct (map fst (NodeStates state))"
  shows "(\<exists>nodes.
            prepareStateForCEL state =
              Ok [''state'' \<mapsto> VMap [''graph_id'' \<mapsto> VStr (GraphID state),
                                     ''status'' \<mapsto> VStr (Status state),
                                     ''inputs'' \<mapsto> VMap (Inputs state),
                                     ''node_states'' \<mapsto> VMap nodes]]
            \<and> (\<forall>nodeID nodeState. (nodeID, Some nodeState) \<in> set (NodeStates state) \<longrightarrow>
                  nodes nodeID =
                    Some (VMap [''status'' \<mapsto> VStr (NodeStatus nodeState),
                                ''output'' \<mapsto> Output nodeState,
                                ''error'' \<mapsto> Error nodeState,
                                ''started_at'' \<mapsto> StartedAt nodeState,
                                ''completed_at'' \<mapsto> CompletedAt nodeState]))
            \<and> (\<forall>nodeID. nodeID \<notin> set (map fst (NodeStates state)) \<longrightarrow> nodes nodeID = None))
       \<and> promptData state ''state'' =
           Some (VMap [''graph_id'' \<mapsto> VStr (GraphID state),
                       ''status'' \<mapsto> VStr (Status state),
                       ''inputs'' \<mapsto> VMap (Inputs state)])
       \<and> (\<forall>key value. Inputs state key = Some value \<longrightarrow> promptData state key = Some value)
       \<and> renderPrompt r state template = Render (templateEngine r) template (promptData state)"
proof -
  from convertNodeStatesLoop_ok [OF nonnil, of Map.empty] keys obtain nodes where
    ok: "convertNodeStatesLoop (NodeStates state) Map.empty = Ok nodes"
    and out: "\<forall>nodeID. nodeID \<notin> set (map fst (NodeStates state)) \<longrightarrow> nodes nodeID = None"
    and inn: "\<forall>nodeID nodeState. (nodeID, Some nodeState) \<in> set (NodeStates state) \<longrightarrow>
                  nodes nodeID =
                    Some (VMap [''status'' \<mapsto> VStr (NodeStatus nodeState),
                                ''output'' \<mapsto> Output nodeState,
                                ''error'' \<mapsto> Error nodeState,
                                ''started_at'' \<mapsto> StartedAt nodeState,
                                ''completed_at'' \<mapsto> CompletedAt nodeState])"
    by auto
  have cel: "prepareStateForCEL state =
              Ok [''state'' \<mapsto> VMap [''graph_id'' \<mapsto> VStr (GraphID state),
                                     ''status'' \<mapsto> VStr (Status state),
                                     ''inputs'' \<mapsto> VMap (Inputs state),
                                     ''node_states'' \<mapsto> VMap nodes]]"
    using ok by (simp add: prepareStateForCEL_def convertNodeStates_def)
  have tmpl: "promptData state ''state'' =
           Some (VMap [''graph_id'' \<mapsto> VStr (GraphID state),
                       ''status'' \<mapsto> VStr (Status state),
                       ''inputs'' \<mapsto> VMap (Inputs state)])"
    using noclash by (simp add: promptData_def map_add_def)
  have flat: "\<forall>key value. Inputs state key = Some value \<longrightarrow> promptData state key = Some value"
    by (simp add: promptData_def map_add_def)
  have rend: "renderPrompt r state template = Render (templateEngine r) template (promptData state)"
    by (simp add: renderPrompt_def)
  from cel inn out have first: "\<exists>nodes.
            prepareStateForCEL state =
              Ok [''state'' \<mapsto> VMap [''graph_id'' \<mapsto> VStr (GraphID state),
                                     ''status'' \<mapsto> VStr (Status state),
                                     ''inputs'' \<mapsto> VMap (Inputs state),
                                     ''node_states'' \<mapsto> VMap nodes]]
            \<and> (\<forall>nodeID nodeState. (nodeID, Some nodeState) \<in> set (NodeStates state) \<longrightarrow>
                  nodes nodeID =
                    Some (VMap [''status'' \<mapsto> VStr (NodeStatus nodeState),
                                ''output'' \<mapsto> Output nodeState,
                                ''error'' \<mapsto> Error nodeState,
                                ''started_at'' \<mapsto> StartedAt nodeState,
                                ''completed_at'' \<mapsto> CompletedAt nodeState]))
            \<and> (\<forall>nodeID. nodeID \<notin> set (map fst (NodeStates state)) \<longrightarrow> nodes nodeID = None)"
    by blast
  show ?thesis
    by (rule conjI [OF first conjI [OF tmpl conjI [OF flat rend]]])
qed

theorem state_projections_witness:
  "(\<exists>nodes.
      prepareStateForCEL exState =
        Ok [''state'' \<mapsto> VMap [''graph_id'' \<mapsto> VStr ''g1'', ''status'' \<mapsto> VStr ''running'',
                               ''inputs'' \<mapsto> VMap [''urgent'' \<mapsto> VBool True],
                               ''node_states'' \<mapsto> VMap nodes]]
      \<and> nodes ''n1'' =
          Some (VMap [''status'' \<mapsto> VStr ''completed'', ''output'' \<mapsto> VStr ''done'',
                      ''error'' \<mapsto> VNull, ''started_at'' \<mapsto> VStr ''2024-01-15T10:00:00Z'',
                      ''completed_at'' \<mapsto> VStr ''2024-01-15T10:00:05Z''])
      \<and> nodes ''n2'' = None)
   \<and> promptData exState ''state'' =
       Some (VMap [''graph_id'' \<mapsto> VStr ''g1'', ''status'' \<mapsto> VStr ''running'',
                   ''inputs'' \<mapsto> VMap [''urgent'' \<mapsto> VBool True]])
   \<and> promptData exState ''urgent'' = Some (VBool True)"
proof -
  have noclash: "Inputs exState ''state'' = None"
    by (simp add: exState_def)
  have nonnil: "\<forall>entry\<in>set (NodeStates exState). snd entry \<noteq> None"
    by (simp add: exState_def)
  have keys: "distinct (map fst (NodeStates exState))"
    by (simp add: exState_def)
  have n1: "(''n1'', Some \<lparr>NodeStatus = ''completed'', Output = VStr ''done'',
                           Error = VNull, StartedAt = VStr ''2024-01-15T10:00:00Z'',
                           CompletedAt = VStr ''2024-01-15T10:00:05Z''\<rparr>) \<in> set (NodeStates exState)"
    by (simp add: exState_def)
  have n2: "''n2'' \<notin> set (map fst (NodeStates exState))"
    by (simp add: exState_def)
  have u: "Inputs exState ''urgent'' = Some (VBool True)"
    by (simp add: exState_def)
  note inst = state_projections [OF noclash nonnil keys]
  from inst obtain nodes where
    cel: "prepareStateForCEL exState =
              Ok [''state'' \<mapsto> VMap [''graph_id'' \<mapsto> VStr (GraphID exState),
                                     ''status'' \<mapsto> VStr (Status exState),
                                     ''inputs'' \<mapsto> VMap (Inputs exState),
                                     ''node_states'' \<mapsto> VMap nodes]]"
    and inn: "\<forall>nodeID nodeState. (nodeID, Some nodeState) \<in> set (NodeStates exState) \<longrightarrow>
                  nodes nodeID =
                    Some (VMap [''status'' \<mapsto> VStr (NodeStatus nodeState),
                                ''output'' \<mapsto> Output nodeState,
                                ''error'' \<mapsto> Error nodeState,
                                ''started_at'' \<mapsto> StartedAt nodeState,
                                ''completed_at'' \<mapsto> CompletedAt nodeState])"
    and out: "\<forall>nodeID. nodeID \<notin> set (map fst (NodeStates exState)) \<longrightarrow> nodes nodeID = None"
    by blast
  from inn n1 have a: "nodes ''n1'' =
          Some (VMap [''status'' \<mapsto> VStr ''completed'', ''output'' \<mapsto> VStr ''done'',
                      ''error'' \<mapsto> VNull, ''started_at'' \<mapsto> VStr ''2024-01-15T10:00:00Z'',
                      ''completed_at'' \<mapsto> VStr ''2024-01-15T10:00:05Z''])"
    by fastforce
  from out n2 have b: "nodes ''n2'' = None" by blast
  have c: "prepareStateForCEL exState =
        Ok [''state'' \<mapsto> VMap [''graph_id'' \<mapsto> VStr ''g1'', ''status'' \<mapsto> VStr ''running'',
                               ''inputs'' \<mapsto> VMap [''urgent'' \<mapsto> VBool True],
                               ''node_states'' \<mapsto> VMap nodes]]"
    using cel by (simp add: exState_def)
  from inst have d: "promptData exState ''state'' =
       Some (VMap [''graph_id'' \<mapsto> VStr ''g1'', ''status'' \<mapsto> VStr ''running'',
                   ''inputs'' \<mapsto> VMap [''urgent'' \<mapsto> VBool True]])"
    by (simp add: exState_def)
  from inst u have e: "promptData exState ''urgent'' = Some (VBool True)"
    by blast
  from a b c d e show ?thesis by blast
qed

text \<open>
  Claim C9 as stated fails: the \<open>state\<close> binding of the template data is not the one of
  the expression evaluator, which has \<open>node_states\<close>.
\<close>

theorem promptData_lacks_node_states:
  "case prepareStateForCEL exState of
     Ok celState \<Rightarrow> promptData exState ''state'' \<noteq> celState ''state''
   | Err err \<Rightarrow> False
   | Panic \<Rightarrow> False"
proof -
  let ?nodes = "[''n1'' \<mapsto> VMap [''status'' \<mapsto> VStr ''completed'', ''output'' \<mapsto> VStr ''done'',
                      ''error'' \<mapsto> VNull, ''started_at'' \<mapsto> VStr ''2024-01-15T10:00:00Z'',
                      ''completed_at'' \<mapsto> VStr ''2024-01-15T10:00:05Z'']]"
  let ?t = "[''graph_id'' \<mapsto> VStr ''g1'', ''status'' \<mapsto> VStr ''running'',
             ''inputs'' \<mapsto> VMap [''urgent'' \<mapsto> VBool True]]"
  let ?c = "[''graph_id'' \<mapsto> VStr ''g1'', ''status'' \<mapsto> VStr ''running'',
             ''inputs'' \<mapsto> VMap [''urgent'' \<mapsto> VBool True],
             ''node_states'' \<mapsto> VMap ?nodes]"
  have cel: "prepareStateForCEL exState = Ok [''state'' \<mapsto> VMap ?c]"
    by (simp add: prepareStateForCEL_def convertNodeStates_def exState_def)
  have tmpl: "promptData exState ''state'' = Some (VMap ?t)"
    by (simp add: promptData_def exState_def map_add_def)
  have neq: "?t \<noteq> ?c"
  proof
    assume "?t = ?c"
    then have "?t ''node_states'' = ?c ''node_states''" by (rule arg_cong)
    then show False by simp
  qed
  have bound: "[''state'' \<mapsto> VMap ?c] ''state'' = Some (VMap ?c)" by simp
  from neq have "Some (VMap ?t) \<noteq> Some (VMap ?c)" by simp
  then show ?thesis
    unfolding cel tmpl result.case bound .
qed

section \<open>Matching the answer of the model\<close>

lemma rangeFind_find:
  "set keys \<subseteq> set (map fst routes) \<Longrightarrow>
   rangeFind p routes keys = (case find p keys of None \<Rightarrow> None | Some key \<Rightarrow> map_of routes key)"
proof (induction keys)
  case Nil
  then show ?case by simp
next
  case (Cons key keys)
  then obtain target where "map_of routes key = Some target"
    by (cases "map_of routes key") (auto simp: map_of_eq_None_iff)
  with Cons show ?case by simp
qed

lemma rangeFind_mapped:
  "rangeFind p routes keys = Some target \<Longrightarrow> \<exists>key. p key \<and> key \<in> set keys \<and> map_of routes key = Some target"
  by (induction keys) (auto split: option.splits if_splits)

lemma find_unique_order:
  assumes "set xs = set ys"
    and "\<forall>a\<in>set xs. \<forall>b\<in>set xs. p a \<and> p b \<longrightarrow> a = b"
  shows "find p xs = find p ys"
proof (cases "find p xs")
  case None
  then have "\<forall>a\<in>set ys. \<not> p a" using assms(1) by (auto simp: find_None_iff)
  then have "find p ys = None" by (simp add: find_None_iff)
  with None show ?thesis by simp
next
  case (Some a)
  then have a: "a \<in> set xs" "p a" by (auto simp: find_Some_iff in_set_conv_nth)
  then obtain b where b: "find p ys = Some b"
    using assms(1) by (cases "find p ys") (auto simp: find_None_iff)
  then have "b \<in> set ys" "p b" by (auto simp: find_Some_iff in_set_conv_nth)
  with a assms have "a = b" by blast
  with Some b show ?thesis by simp
qed

lemma rangeFind_unique_order:
  assumes "rangeOrder xs routes" "rangeOrder ys routes"
    and "\<forall>a\<in>set (map fst routes). \<forall>b\<in>set (map fst routes). p a \<and> p b \<longrightarrow> a = b"
  shows "rangeFind p routes xs = rangeFind p routes ys"
proof -
  have sets: "set xs = set ys"
    using assms(1,2) by (simp add: rangeOrder_def)
  have "set xs = set (map fst routes)"
    using assms(1) by (simp add: rangeOrder_def)
  with assms(3) have "\<forall>a\<in>set xs. \<forall>b\<in>set xs. p a \<and> p b \<longrightarrow> a = b"
    by blast
  with sets have "find p xs = find p ys"
    by (rule find_unique_order)
  then show ?thesis
    using assms(1,2) by (simp add: rangeFind_find rangeOrder_def)
qed



lemma find_Some_mem: "find p keys = Some k \<Longrightarrow> k \<in> set keys"
  by (auto simp: find_Some_iff in_set_conv_nth)


lemma Route_llm_response:
  assumes "validateConfig (Some (resolveMode config)) = None"
    and "Mode (resolveMode config) = ModeLLM"
    and "llmClient r = Some client"
    and "LLMConfig config = Some llm"
    and "Routes llm = routes"
    and "renderPrompt r state (PromptTemplate llm) = Inr prompt"
    and "client (completionRequest prompt) = Inr (LLMResponse response)"
  shows "Route r ord state config =
           Ok (if snd (matchLLMResponse ord response routes)
                then \<lparr>TargetNode = fst (matchLLMResponse ord response routes),
                      Reasoning = ''llm classified as: '' @ response,
                      ResultMode = ModeLLM, PathTaken = ''slow''\<rparr>
                else \<lparr>TargetNode = Fallback config,
                      Reasoning = ''llm response '' @ [CHR 0x27] @ response @ [CHR 0x27]
                                  @ '' did not match any route'',
                      ResultMode = ModeLLM, PathTaken = ''fallback''\<rparr>)"
proof -
  have "callLLM client prompt = Inr response"
    using assms(7) by (simp add: callLLM_def)
  then show ?thesis
    using assms(1-6) by (simp add: Route_llm routeLLM_def split: prod.splits)
qed

text \<open>
  Claim C6, amended. Matching proceeds in this precedence: (1) the response, lowercased
  and trimmed, is looked up among the keys as they are written; (2) else the first key,
  in the order of the first loop, that equals the normalised response without regard to
  case; (3) else the first key, in the order of the second loop, whose lowercase form is
  contained in the normalised response; else there is no match. In llm mode a match gives
  the mapped target on the slow path and no match the fallback target on the fallback
  path. The result depends on the response, the routes and the two iteration orders; it
  is the same for all orders when at most one key is equal without regard to case and at
  most one key is contained.
\<close>

theorem matchLLMResponse_precedence:
  assumes o1: "rangeOrder (fst ord) routes" and o2: "rangeOrder (snd ord) routes"
  shows "(map_of routes (TrimSpace (ToLower response)) = Some target \<longrightarrow>
            matchLLMResponse ord response routes = (target, True))
       \<and> (map_of routes (TrimSpace (ToLower response)) = None
            \<and> find (\<lambda>key. EqualFold key (TrimSpace (ToLower response))) (fst ord) = Some key \<longrightarrow>
            (\<exists>t. map_of routes key = Some t \<and> matchLLMResponse ord response routes = (t, True)))
       \<and> (map_of routes (TrimSpace (ToLower response)) = None
            \<and> find (\<lambda>key. EqualFold key (TrimSpace (ToLower response))) (fst ord) = None
            \<and> find (\<lambda>key. Contains (TrimSpace (ToLower response)) (ToLower key)) (snd ord) = Some key \<longrightarrow>
            (\<exists>t. map_of routes key = Some t \<and> matchLLMResponse ord response routes = (t, True)))
       \<and> (map_of routes (TrimSpace (ToLower response)) = None
            \<and> find (\<lambda>key. EqualFold key (TrimSpace (ToLower response))) (fst ord) = None
            \<and> find (\<lambda>key. Contains (TrimSpace (ToLower response)) (ToLower key)) (snd ord) = None \<longrightarrow>
            matchLLMResponse ord response routes = ([], False))
       \<and> (rangeOrder (fst ord') routes \<and> rangeOrder (snd ord') routes
            \<and> (\<forall>a\<in>set (map fst routes). \<forall>b\<in>set (map fst routes).
                  EqualFold a (TrimSpace (ToLower response)) \<and> EqualFold b (TrimSpace (ToLower response))
                  \<longrightarrow> a = b)
            \<and> (\<forall>a\<in>set (map fst routes). \<forall>b\<in>set (map fst routes).
                  Contains (TrimSpace (ToLower response)) (ToLower a)
                  \<and> Contains (TrimSpace (ToLower response)) (ToLower b) \<longrightarrow> a = b) \<longrightarrow>
            matchLLMResponse ord' response routes = matchLLMResponse ord response routes)
       \<and> (validateConfig (Some (resolveMode config)) = None \<and> Mode (resolveMode config) = ModeLLM
            \<and> llmClient r = Some client \<and> LLMConfig config = Some llm \<and> Routes llm = routes
            \<and> renderPrompt r state (PromptTemplate llm) = Inr prompt
            \<and> client (completionRequest prompt) = Inr (LLMResponse response) \<longrightarrow>
            Route r ord state config =
              Ok (if snd (matchLLMResponse ord response routes)
                   then \<lparr>TargetNode = fst (matchLLMResponse ord response routes),
                         Reasoning = ''llm classified as: '' @ response,
                         ResultMode = ModeLLM, PathTaken = ''slow''\<rparr>
                   else \<lparr>TargetNode = Fallback config,
                         Reasoning = ''llm response '' @ [CHR 0x27] @ response @ [CHR 0x27]
                                     @ '' did not match any route'',
                         ResultMode = ModeLLM, PathTaken = ''fallback''\<rparr>))"
proof -
  let ?n = "TrimSpace (ToLower response)"
  have s1: "set (fst ord) \<subseteq> set (map fst routes)" and s2: "set (snd ord) \<subseteq> set (map fst routes)"
    using o1 o2 by (simp_all add: rangeOrder_def)
  have dom: "\<And>k. k \<in> set (map fst routes) \<Longrightarrow> \<exists>t. map_of routes k = Some t"
  proof -
    fix k assume "k \<in> set (map fst routes)"
    then have "map_of routes k \<noteq> None" by (simp add: map_of_eq_None_iff)
    then show "\<exists>t. map_of routes k = Some t" by blast
  qed
  have p1: "map_of routes ?n = Some target \<longrightarrow> matchLLMResponse ord response routes = (target, True)"
    by (simp add: matchLLMResponse_def)
  have p2: "map_of routes ?n = None \<and> find (\<lambda>key. EqualFold key ?n) (fst ord) = Some key \<longrightarrow>
            (\<exists>t. map_of routes key = Some t \<and> matchLLMResponse ord response routes = (t, True))"
  proof
    assume h: "map_of routes ?n = None \<and> find (\<lambda>key. EqualFold key ?n) (fst ord) = Some key"
    then have "find (\<lambda>key. EqualFold key ?n) (fst ord) = Some key" by simp
    then have "key \<in> set (fst ord)" by (rule find_Some_mem)
    with s1 have "key \<in> set (map fst routes)" by (rule subsetD)
    from dom [OF this] obtain t where t: "map_of routes key = Some t" by blast
    with h show "\<exists>t. map_of routes key = Some t \<and> matchLLMResponse ord response routes = (t, True)"
      by (simp add: matchLLMResponse_def rangeFind_find [OF s1])
  qed
  have p3: "map_of routes ?n = None \<and> find (\<lambda>key. EqualFold key ?n) (fst ord) = None
            \<and> find (\<lambda>key. Contains ?n (ToLower key)) (snd ord) = Some key \<longrightarrow>
            (\<exists>t. map_of routes key = Some t \<and> matchLLMResponse ord response routes = (t, True))"
  proof
    assume h: "map_of routes ?n = None \<and> find (\<lambda>key. EqualFold key ?n) (fst ord) = None
            \<and> find (\<lambda>key. Contains ?n (ToLower key)) (snd ord) = Some key"
    then have "find (\<lambda>key. Contains ?n (ToLower key)) (snd ord) = Some key" by simp
    then have "key \<in> set (snd ord)" by (rule find_Some_mem)
    with s2 have "key \<in> set (map fst routes)" by (rule subsetD)
    from dom [OF this] obtain t where t: "map_of routes key = Some t" by blast
    with h show "\<exists>t. map_of routes key = Some t \<and> matchLLMResponse ord response routes = (t, True)"
      by (simp add: matchLLMResponse_def rangeFind_find [OF s1] rangeFind_find [OF s2])
  qed
  have p4: "map_of routes ?n = None \<and> find (\<lambda>key. EqualFold key ?n) (fst ord) = None
            \<and> find (\<lambda>key. Contains ?n (ToLower key)) (snd ord) = None \<longrightarrow>
            matchLLMResponse ord response routes = ([], False)"
    by (simp add: matchLLMResponse_def rangeFind_find [OF s1] rangeFind_find [OF s2])
  have p5: "rangeOrder (fst ord') routes \<and> rangeOrder (snd ord') routes
            \<and> (\<forall>a\<in>set (map fst routes). \<forall>b\<in>set (map fst routes).
                  EqualFold a ?n \<and> EqualFold b ?n \<longrightarrow> a = b)
            \<and> (\<forall>a\<in>set (map fst routes). \<forall>b\<in>set (map fst routes).
                  Contains ?n (ToLower a) \<and> Contains ?n (ToLower b) \<longrightarrow> a = b) \<longrightarrow>
            matchLLMResponse ord' response routes = matchLLMResponse ord response routes"
  proof
    assume h: "rangeOrder (fst ord') routes \<and> rangeOrder (snd ord') routes
            \<and> (\<forall>a\<in>set (map fst routes). \<forall>b\<in>set (map fst routes).
                  EqualFold a ?n \<and> EqualFold b ?n \<longrightarrow> a = b)
            \<and> (\<forall>a\<in>set (map fst routes). \<forall>b\<in>set (map fst routes).
                  Contains ?n (ToLower a) \<and> Contains ?n (ToLower b) \<longrightarrow> a = b)"
    from h have o1': "rangeOrder (fst ord') routes" and o2': "rangeOrder (snd ord') routes"
      and u1: "\<forall>a\<in>set (map fst routes). \<forall>b\<in>set (map fst routes).
                  EqualFold a ?n \<and> EqualFold b ?n \<longrightarrow> a = b"
      and u2: "\<forall>a\<in>set (map fst routes). \<forall>b\<in>set (map fst routes).
                  Contains ?n (ToLower a) \<and> Contains ?n (ToLower b) \<longrightarrow> a = b"
      by blast+
    have e1: "rangeFind (\<lambda>key. EqualFold key ?n) routes (fst ord')
            = rangeFind (\<lambda>key. EqualFold key ?n) routes (fst ord)"
      using o1' o1 u1 by (rule rangeFind_unique_order)
    have e2: "rangeFind (\<lambda>key. Contains ?n (ToLower key)) routes (snd ord')
            = rangeFind (\<lambda>key. Contains ?n (ToLower key)) routes (snd ord)"
      using o2' o2 u2 by (rule rangeFind_unique_order)
    show "matchLLMResponse ord' response routes = matchLLMResponse ord response routes"
      unfolding matchLLMResponse_def Let_def e1 e2 by (rule refl)
  qed
  have p6: "validateConfig (Some (resolveMode config)) = None \<and> Mode (resolveMode config) = ModeLLM
            \<and> llmClient r = Some client \<and> LLMConfig config = Some llm \<and> Routes llm = routes
            \<and> renderPrompt r state (PromptTemplate llm) = Inr prompt
            \<and> client (completionRequest prompt) = Inr (LLMResponse response) \<longrightarrow>
            Route r ord state config =
              Ok (if snd (matchLLMResponse ord response routes)
                   then \<lparr>TargetNode = fst (matchLLMResponse ord response routes),
                         Reasoning = ''llm classified as: '' @ response,
                         ResultMode = ModeLLM, PathTaken = ''slow''\<rparr>
                   else \<lparr>TargetNode = Fallback config,
                         Reasoning = ''llm response '' @ [CHR 0x27] @ response @ [CHR 0x27]
                                     @ '' did not match any route'',
                         ResultMode = ModeLLM, PathTaken = ''fallback''\<rparr>)"
    by (rule impI) (rule Route_llm_response, blast+)
  show ?thesis
    by (rule conjI [OF p1 conjI [OF p2 conjI [OF p3 conjI [OF p4 conjI [OF p5 p6]]]]])
qed


lemma exAB_strings:
  "TrimSpace (ToLower ''xb'') = ''xb''"
  "EqualFold ''a'' ''xb'' = False"
  "EqualFold ''b'' ''xb'' = False"
  "ToLower ''a'' = ''a''"
  "ToLower ''b'' = ''b''"
  "TrimSpace (ToLower ''  Yes '') = ''yes''"
  by code_simp+

theorem matchLLMResponse_precedence_witness:
  "matchLLMResponse ([''a'', ''b''], [''b'', ''a'']) ''xb'' exRoutesAB = (''Y'', True)
   \<and> Route (exRouter (Some (exReply ''  Yes ''))) exOrder exState (exLLM ''Classify'' exRoutes) =
       Ok \<lparr>TargetNode = ''Y'', Reasoning = ''llm classified as:   Yes '',
            ResultMode = ''llm'', PathTaken = ''slow''\<rparr>"
proof -
  let ?ord = "([''a'', ''b''], [''b'', ''a''])"
  have o1: "rangeOrder (fst ?ord) exRoutesAB" and o2: "rangeOrder (snd ?ord) exRoutesAB"
    by (auto simp: rangeOrder_def exRoutesAB_def)
  have stage3: "map_of exRoutesAB (TrimSpace (ToLower ''xb'')) = None
            \<and> find (\<lambda>key. EqualFold key (TrimSpace (ToLower ''xb''))) (fst ?ord) = None
            \<and> find (\<lambda>key. Contains (TrimSpace (ToLower ''xb'')) (ToLower key)) (snd ?ord) = Some ''b''"
    by (simp add: exAB_strings exRoutesAB_def)
  from matchLLMResponse_precedence [OF o1 o2, of "''xb''" _ "''b''"] stage3
  have "\<exists>t. map_of exRoutesAB ''b'' = Some t \<and> matchLLMResponse ?ord ''xb'' exRoutesAB = (t, True)"
    by blast
  then have m: "matchLLMResponse ?ord ''xb'' exRoutesAB = (''Y'', True)"
    by (auto simp: exRoutesAB_def)
  let ?r = "exRouter (Some (exReply ''  Yes ''))"
  let ?c = "exLLM ''Classify'' exRoutes"
  let ?llm = "\<lparr>PromptTemplate = ''Classify'', Routes = exRoutes\<rparr>"
  have e1: "rangeOrder (fst exOrder) exRoutes" and e2: "rangeOrder (snd exOrder) exRoutes"
    by (auto simp: rangeOrder_def exRoutes_def exOrder_def)
  have exact: "map_of exRoutes (TrimSpace (ToLower ''  Yes '')) = Some ''Y''"
    by (simp add: exAB_strings exRoutes_def)
  have valid: "validateConfig (Some (resolveMode ?c)) = None"
    unfolding exLLM_resolved by (simp add: exLLM_valid exRoutes_def)
  have client: "llmClient ?r = Some (exReply ''  Yes '')"
    by (simp add: exRouter_def)
  have rendered: "renderPrompt ?r exState ''Classify'' = Inr ''Classify''"
    by (rule exRender_plain)
  have run: "validateConfig (Some (resolveMode ?c)) = None \<and> Mode (resolveMode ?c) = ModeLLM
            \<and> llmClient ?r = Some (exReply ''  Yes '') \<and> LLMConfig ?c = Some ?llm \<and> Routes ?llm = exRoutes
            \<and> renderPrompt ?r exState (PromptTemplate ?llm) = Inr ''Classify''
            \<and> exReply ''  Yes '' (completionRequest ''Classify'') = Inr (LLMResponse ''  Yes '')"
    using valid client rendered unfolding exLLM_resolved
    by (simp add: exLLM_def ModeLLM_def exReply_def)
  note inst = matchLLMResponse_precedence [OF e1 e2, of "''  Yes ''" "''Y''" _ _ ?c ?r
      "exReply ''  Yes ''" ?llm exState "''Classify''"]
  from inst exact have y: "matchLLMResponse exOrder ''  Yes '' exRoutes = (''Y'', True)"
    by blast
  from inst run have "Route ?r exOrder exState ?c =
              Ok (if snd (matchLLMResponse exOrder ''  Yes '' exRoutes)
                   then \<lparr>TargetNode = fst (matchLLMResponse exOrder ''  Yes '' exRoutes),
                         Reasoning = ''llm classified as: '' @ ''  Yes '',
                         ResultMode = ModeLLM, PathTaken = ''slow''\<rparr>
                   else \<lparr>TargetNode = Fallback ?c,
                         Reasoning = ''llm response '' @ [CHR 0x27] @ ''  Yes '' @ [CHR 0x27]
                                     @ '' did not match any route'',
                         ResultMode = ModeLLM, PathTaken = ''fallback''\<rparr>)"
    by blast
  with y m show ?thesis
    by (simp add: ModeLLM_def)
qed

text \<open>
  Claim C6 as stated fails: for the routes \<open>{a: X, b: Y}\<close> and the response \<open>ab\<close>
  both keys are contained in the response, and the two possible iteration orders give two
  different targets.
\<close>

theorem matchLLMResponse_depends_on_order:
  "rangeOrder [''a'', ''b''] exRoutesAB \<and> rangeOrder [''b'', ''a''] exRoutesAB
   \<and> matchLLMResponse ([''a'', ''b''], [''a'', ''b'']) ''ab'' exRoutesAB = (''X'', True)
   \<and> matchLLMResponse ([''b'', ''a''], [''b'', ''a'']) ''ab'' exRoutesAB = (''Y'', True)"
  by code_simp

section \<open>Validation and the target of a decision\<close>

lemma validateRules_None:
  "(validateRules i rules = None) = (\<forall>rule\<in>set rules. Condition rule \<noteq> [] \<and> Target rule \<noteq> [])"
  by (induction rules arbitrary: i) auto

lemma validateConfig_accepts:
  "(validateConfig (Some config) = None) =
     (Fallback config \<noteq> []
      \<and> (Mode config = ModeDeterministic \<longrightarrow>
            Rules config \<noteq> [] \<and> (\<forall>rule\<in>set (Rules config). Condition rule \<noteq> [] \<and> Target rule \<noteq> []))
      \<and> (Mode config = ModeLLM \<longrightarrow>
            (\<exists>llm. LLMConfig config = Some llm \<and> PromptTemplate llm \<noteq> [] \<and> Routes llm \<noteq> []))
      \<and> (Mode config = ModeHybrid \<longrightarrow>
            FastRules config \<noteq> []
            \<and> (\<exists>llm. LLMFallback config = Some llm \<and> PromptTemplate llm \<noteq> [] \<and> Routes llm \<noteq> [])))"
  by (auto simp: validateConfig_def validateRules_None split: option.splits)

lemma convertNodeStatesLoop_not_Err: "convertNodeStatesLoop entries acc \<noteq> Err err"
proof (induction entries arbitrary: acc)
  case Nil
  then show ?case by simp
next
  case (Cons entry entries)
  obtain id0 p0 where entry: "entry = (id0, p0)" by (cases entry)
  show ?case
  proof (cases p0)
    case None
    with entry show ?thesis by simp
  next
    case (Some n0)
    with Cons entry show ?thesis by simp
  qed
qed

lemma prepareStateForCEL_not_Err: "prepareStateForCEL state \<noteq> Err err"
  using convertNodeStatesLoop_not_Err [of "NodeStates state" Map.empty]
  by (auto simp: prepareStateForCEL_def convertNodeStates_def split: result.splits)






text \<open>
  When the engine panics, for a valid config: in deterministic and hybrid mode, when a
  node state is \<open>nil\<close> or the condition of a rule of the mode evaluates to a value.
\<close>

lemma evalRules_Panic:
  "(evalRules e s i rules = Panic) = (\<exists>rule\<in>set rules. Evaluate e (Condition rule) s = Panic)"
proof -
  have "(evalRules e s i rules = Panic) = (evalRules e s i rules \<noteq> Ok None)"
    using evalRules_outcome [of e s i rules] by auto
  also have "\<dots> = (\<exists>rule\<in>set rules. \<not> (\<exists>err. Evaluate e (Condition rule) s = Err err))"
    by (simp add: evalRules_None)
  also have "\<dots> = (\<exists>rule\<in>set rules. Evaluate e (Condition rule) s = Panic)"
    using Evaluate_outcome [of e _ s] by (metis result.distinct(5))
  finally show ?thesis .
qed

lemma Route_Panic_iff:
  assumes valid: "validateConfig (Some (resolveMode config)) = None"
  shows "(Route r ord state config = Panic) =
           ((Mode (resolveMode config) = ModeDeterministic \<or> Mode (resolveMode config) = ModeHybrid)
            \<and> (prepareStateForCEL state = Panic
                \<or> (\<exists>celState. prepareStateForCEL state = Ok celState
                      \<and> (\<exists>rule\<in>set (if Mode (resolveMode config) = ModeHybrid then FastRules config
                                        else Rules config).
                            Evaluate (celEvaluator r) (Condition rule) celState = Panic))))"
proof -
  let ?c = "resolveMode config"
  consider (det) "Mode ?c = ModeDeterministic" | (llm) "Mode ?c = ModeLLM" | (hyb) "Mode ?c = ModeHybrid"
    | (other) "Mode ?c \<noteq> ModeDeterministic" "Mode ?c \<noteq> ModeLLM" "Mode ?c \<noteq> ModeHybrid"
    by blast
  then show ?thesis
  proof cases
    case det
    show ?thesis
    proof (cases "prepareStateForCEL state")
      case (Ok celState)
      have e: "(evalRules (celEvaluator r) celState 0 (Rules config) = Panic) =
                 (\<exists>rule\<in>set (Rules config). Evaluate (celEvaluator r) (Condition rule) celState = Panic)"
        by (rule evalRules_Panic)
      have "(routeDeterministic r state ?c = Panic) =
              (evalRules (celEvaluator r) celState 0 (Rules config) = Panic)"
        using evalRules_outcome [of "celEvaluator r" celState 0 "Rules config"] Ok valid
        by (auto simp: routeDeterministic_def)
      with det Ok e show ?thesis by (simp add: Route_deterministic)
    next
      case (Err err)
      with prepareStateForCEL_not_Err show ?thesis by blast
    next
      case Panic
      with det valid show ?thesis by (simp add: Route_deterministic routeDeterministic_def)
    qed
  next
    case llm
    from valid llm obtain l where l: "LLMConfig config = Some l"
      by (auto simp: validateConfig_accepts)
    with llm valid show ?thesis
      by (auto simp: Route_llm routeLLM_def split: option.splits sum.splits prod.splits)
  next
    case hyb
    from valid hyb obtain l where l: "LLMFallback config = Some l"
      by (auto simp: validateConfig_accepts)
    show ?thesis
    proof (cases "prepareStateForCEL state")
      case (Ok celState)
      have e: "(evalRules (celEvaluator r) celState 0 (FastRules config) = Panic) =
                 (\<exists>rule\<in>set (FastRules config). Evaluate (celEvaluator r) (Condition rule) celState = Panic)"
        by (rule evalRules_Panic)
      have "(routeHybrid r ord state ?c = Panic) =
              (evalRules (celEvaluator r) celState 0 (FastRules config) = Panic)"
        using evalRules_outcome [of "celEvaluator r" celState 0 "FastRules config"] Ok valid l
        by (auto simp: routeHybrid_def split: option.splits sum.splits prod.splits)
      with hyb Ok e show ?thesis by (simp add: Route_hybrid)
    next
      case (Err err)
      with prepareStateForCEL_not_Err show ?thesis by blast
    next
      case Panic
      with hyb valid show ?thesis by (simp add: Route_hybrid routeHybrid_def)
    qed
  next
    case other
    then show ?thesis by (simp add: Route_def Let_def)
  qed
qed





text \<open>
  Claim C3 at a hybrid config whose fast rule has an empty target, or an empty
  condition: validation accepts both, where the claim requires a validation error, and
  the same rules are rejected in deterministic mode. For the rule with the empty
  condition the engine returns a decision, where the claim requires that there is none:
  the empty expression does not compile, the rule is skipped, and without a client the
  decision is the fallback.
\<close>

theorem hybrid_fast_rules_not_validated:
  "validateConfig (Some (exHybrid [\<lparr>Condition = ''true'', Target = []\<rparr>] ''Classify'')) = None
   \<and> validateConfig (Some (exHybrid [\<lparr>Condition = [], Target = ''A''\<rparr>] ''Classify'')) = None
   \<and> Route (exRouter None) exOrder exState
        (exHybrid [\<lparr>Condition = [], Target = ''A''\<rparr>] ''Classify'') =
       Ok \<lparr>TargetNode = ''D'',
           Reasoning = ''fast rules did not match and llm client not configured'',
           ResultMode = ''hybrid'', PathTaken = ''fallback''\<rparr>
   \<and> validateConfig (Some (exDeterministic [\<lparr>Condition = ''true'', Target = []\<rparr>])) =
       Some ''rule 0: target is required''
   \<and> validateConfig (Some (exDeterministic [\<lparr>Condition = [], Target = ''A''\<rparr>])) =
       Some ''rule 0: condition is required''"
  by code_simp

end
